theory Spec2Isabelle
  imports Main
begin

section \<open>The C tracer of the bdb module (pdb\_clone/\_bdbmodule.c)\<close>

text \<open>
  The module implements the class BdbTracer: a trace function that the interpreter calls
  on every call, line, return and exception event of the traced program, and the methods
  reset and stop\_here. The development below embeds the C functions one by one, keeping
  their names, their order of tests and their error returns.

  Conventions of the embedding:
  \<^item> a \<open>PyObject *\<close> is a value of the datatype \<open>PyObject\<close>; \<open>NULL\<close> is one of its
    values, so that \<open>result == NULL\<close> reads the same here as in C. Pointer comparison
    is equality of these values (a frame, a code object and a dictionary are named by
    their address);
  \<^item> frames and dictionaries are mutable and shared, so they live in a store indexed by
    address; code objects are immutable and are read from the environment;
  \<^item> a C function that mutates the tracer or a frame takes the state and returns the
    new one beside its C result;
  \<^item> a call of a Python-level method (\<open>PyObject_CallMethod\<close>) runs interpreted code the
    module does not contain: it is a parameter, a state transformer that may change
    whatever Python code can reach and that returns \<open>NULL\<close> when it raises;
  \<^item> reference counts are not modelled.
\<close>

subsection \<open>Objects, frames and the tracer structure\<close>

type_synonym addr = nat

datatype PyObject =
    NULL
  | Py_None
  | Py_True
  | Py_False
  | Py_NotImplemented
  | PyLong int
  | PyUnicode string
  | PyFrame addr
  | PyCode addr
  | PyDict addr
  | PyBdbTracer
  | PyOther addr
  | PyEmpty addr
  | PyRaising addr

text \<open>
  \<open>PyBdbTracer\<close> is the tracer object itself (\<open>self\<close>, also \<open>self->trace_dispatch\<close>).
  The last three are objects of kinds the module never looks into, told apart by what
  their special methods do: a \<open>PyOther\<close> is true (a breakpoint list, a handler of another
  class), a \<open>PyEmpty\<close> is false (an empty container, a zero of another numeric type), and
  the \<open>__bool__\<close>, \<open>__eq__\<close> and \<open>__hash__\<close> of a \<open>PyRaising\<close> raise.
\<close>

type_synonym dict = "(PyObject \<times> PyObject) list"

record PyCodeObject =
  co_filename :: PyObject
  co_firstlineno :: int

record PyFrameObject =
  f_back :: "addr option"
  f_code :: addr
  f_trace :: PyObject
  f_lineno :: int

text \<open>
  The structure \<open>BdbTracer\<close>. The first ten fields are the attributes that
  \<open>BdbTracer_members\<close> exposes to Python; the last five are internal. The tuples
  \<open>skip_modules\<close> and \<open>skip_calls\<close> and the list \<open>linenumbers\<close> are held by value. The
  cached code object of the C structure is the field \<open>f_code\<close>; it is called
  \<open>cur_f_code\<close> here, the name \<open>f_code\<close> being the frame's.
\<close>

record BdbTracer =
  breakpoints :: PyObject
  botframe :: PyObject
  quitting :: PyObject
  topframe :: PyObject
  topframe_locals :: PyObject
  stopframe :: PyObject
  stop_lineno :: PyObject
  skip_modules :: "PyObject list"
  skip_calls :: "PyObject list"
  linenumbers :: "PyObject list"
  ignore_first_call_event :: int
  lcfilename_cache :: PyObject
  module_bps :: PyObject
  code_bps :: PyObject
  cur_f_code :: "addr option"

text \<open>
  The state a C function of the module works on: the tracer, the frames and dictionaries
  of the interpreter, the trace object installed by \<open>PyEval_SetTrace\<close> (\<open>NULL\<close> when
  tracing is off), and the frames that \<open>PyTraceBack_Here\<close> has added to the traceback of
  the pending exception, the latest first.
\<close>

record world =
  bdb :: BdbTracer
  frames :: "addr \<Rightarrow> PyFrameObject"
  dicts :: "addr \<Rightarrow> dict"
  c_traceobj :: PyObject
  tracebacks :: "addr list"

text \<open>
  What the module takes from the interpreter: the code objects, the methods of \<open>self\<close>
  that a Python subclass defines (looked up by name, called with a list of arguments),
  \<open>str.lower\<close>, the line number the interpreter computes for a frame that is not traced,
  and the allocator of dictionaries (it works on the store of dictionaries and returns
  \<open>NULL\<close> when memory is short).
\<close>

record env =
  codes :: "addr \<Rightarrow> PyCodeObject"
  py_method :: "string \<Rightarrow> PyObject list \<Rightarrow> world \<Rightarrow> PyObject \<times> world"
  str_lower :: "PyObject \<Rightarrow> PyObject"
  PyFrame_GetLineNumber :: "PyFrameObject \<Rightarrow> int"
  PyDict_New :: "(addr \<Rightarrow> dict) \<Rightarrow> PyObject \<times> (addr \<Rightarrow> dict)"

datatype event =
    PyTrace_CALL
  | PyTrace_EXCEPTION
  | PyTrace_LINE
  | PyTrace_RETURN
  | PyTrace_C_CALL
  | PyTrace_C_EXCEPTION
  | PyTrace_C_RETURN

subsection \<open>The functions of the C API that the module calls\<close>

text \<open>
  \<open>PyObject_CallMethod(self, name, ...)\<close>. The interpreted method may assign every
  attribute listed in \<open>BdbTracer_members\<close>, may call \<open>reset\<close>, and may change frames,
  dictionaries and the installed trace function. The fields \<open>lcfilename_cache\<close>,
  \<open>module_bps\<close>, \<open>code_bps\<close> and \<open>f_code\<close> of the structure are no attributes. Interpreted
  code reaches them in one way only, by running \<open>__init__\<close> again, and
  \<open>BdbTracer_init\<close> stores \<open>NULL\<close> in \<open>module_bps\<close>, \<open>code_bps\<close> and \<open>f_code\<close> (and
  \<open>NULL\<close> or a new dictionary in \<open>lcfilename_cache\<close>). So a state that the method leaves
  with the three cleared is taken as it is, and in every other state the four fields keep
  the values they had before the call.
\<close>

definition PyObject_CallMethod ::
    "env \<Rightarrow> world \<Rightarrow> string \<Rightarrow> PyObject list \<Rightarrow> PyObject \<times> world" where
  "PyObject_CallMethod env w name args =
     (let (result, w') = py_method env name args w in
      if module_bps (bdb w') = NULL \<and> code_bps (bdb w') = NULL \<and>
         cur_f_code (bdb w') = None
      then (result, w')
      else
        (result,
         w'\<lparr>bdb := (bdb w')\<lparr>lcfilename_cache := lcfilename_cache (bdb w),
                             module_bps := module_bps (bdb w),
                             code_bps := code_bps (bdb w),
                             cur_f_code := cur_f_code (bdb w)\<rparr>\<rparr>))"

text \<open>
  \<open>PyObject_IsTrue\<close>: 1 or 0, and -1 with an exception set when the truth test of the
  object raises.
\<close>

fun PyObject_IsTrue :: "(addr \<Rightarrow> dict) \<Rightarrow> PyObject \<Rightarrow> int" where
  "PyObject_IsTrue h Py_None = 0"
| "PyObject_IsTrue h Py_False = 0"
| "PyObject_IsTrue h (PyLong n) = (if n = 0 then 0 else 1)"
| "PyObject_IsTrue h (PyUnicode s) = (if s = [] then 0 else 1)"
| "PyObject_IsTrue h (PyDict a) = (if h a = [] then 0 else 1)"
| "PyObject_IsTrue h (PyEmpty a) = 0"
| "PyObject_IsTrue h (PyRaising a) = -1"
| "PyObject_IsTrue h obj = 1"

text \<open>
  \<open>PyLong_AsLong\<close>: the value of an int object that fits a C long of 64 bits (a bool is
  an int); otherwise the C function returns -1 with an exception set, here \<open>None\<close>.
\<close>

fun PyLong_AsLong :: "PyObject \<Rightarrow> int option" where
  "PyLong_AsLong (PyLong n) =
     (if - 9223372036854775808 \<le> n \<and> n \<le> 9223372036854775807 then Some n else None)"
| "PyLong_AsLong Py_True = Some 1"
| "PyLong_AsLong Py_False = Some 0"
| "PyLong_AsLong obj = None"

text \<open>
  The C code stores the long in an \<open>int\<close> variable (\<open>int lineno\<close>): the value is reduced
  to 32 bits, two's complement.
\<close>

definition int_of_long :: "int \<Rightarrow> int" where
  "int_of_long v = (v + 2147483648) mod 4294967296 - 2147483648"

text \<open>
  Dictionaries hash their keys: a dictionary is not hashable, the hash of a \<open>PyRaising\<close>
  raises, and \<open>NULL\<close> is no key.
\<close>

fun hashable :: "PyObject \<Rightarrow> bool" where
  "hashable NULL = False"
| "hashable (PyDict a) = False"
| "hashable (PyRaising a) = False"
| "hashable obj = True"

text \<open>
  Python finds a key by hash and \<open>==\<close>, under which a bool is the int of its value:
  \<open>True\<close> finds the key 1. \<open>key_of\<close> maps a key to the representative of its class;
  strings and ints are keys by value, the other objects by identity.
\<close>

fun key_of :: "PyObject \<Rightarrow> PyObject" where
  "key_of Py_True = PyLong 1"
| "key_of Py_False = PyLong 0"
| "key_of obj = obj"

definition dict_lookup :: "dict \<Rightarrow> PyObject \<Rightarrow> PyObject option" where
  "dict_lookup d key = map_of (map (\<lambda>(k, v). (key_of k, v)) d) (key_of key)"

text \<open>Storing under a key that is present replaces the value and keeps the key.\<close>

definition dict_store :: "dict \<Rightarrow> PyObject \<Rightarrow> PyObject \<Rightarrow> dict" where
  "dict_store d key v =
     (if dict_lookup d key = None then d @ [(key, v)]
      else map (\<lambda>(k, u). if key_of k = key_of key then (k, v) else (k, u)) d)"

text \<open>
  \<open>PyDict_GetItem\<close> returns \<open>NULL\<close> when the key is absent, when it cannot be hashed and
  when the first argument is no dictionary, and never sets an exception.
\<close>

definition PyDict_GetItem :: "(addr \<Rightarrow> dict) \<Rightarrow> PyObject \<Rightarrow> PyObject \<Rightarrow> PyObject" where
  "PyDict_GetItem h d key =
     (case d of
        PyDict a \<Rightarrow>
          (if hashable key then (case dict_lookup (h a) key of Some v \<Rightarrow> v | None \<Rightarrow> NULL)
           else NULL)
      | _ \<Rightarrow> NULL)"

text \<open>\<open>PyDict_SetItem\<close> returns 0 and stores the item, or returns -1.\<close>

definition PyDict_SetItem ::
    "(addr \<Rightarrow> dict) \<Rightarrow> PyObject \<Rightarrow> PyObject \<Rightarrow> PyObject \<Rightarrow> int \<times> (addr \<Rightarrow> dict)" where
  "PyDict_SetItem h d key v =
     (case d of
        PyDict a \<Rightarrow>
          (if hashable key then (0, h(a := dict_store (h a) key v)) else (-1, h))
      | _ \<Rightarrow> (-1, h))"

text \<open>
  \<open>PyDict_Contains\<close> returns 1, 0, or -1 for a key that cannot be hashed. The C function
  does not check that its first argument is a dictionary (passing anything else is
  undefined); the model answers -1 there.
\<close>

definition PyDict_Contains :: "(addr \<Rightarrow> dict) \<Rightarrow> PyObject \<Rightarrow> PyObject \<Rightarrow> int" where
  "PyDict_Contains h d key =
     (case d of
        PyDict a \<Rightarrow>
          (if hashable key then (if dict_lookup (h a) key = None then 0 else 1) else -1)
      | _ \<Rightarrow> -1)"

text \<open>
  \<open>PyList_GET_ITEM\<close> is an unchecked array read. The module guards it with
  \<open>index < PyList_GET_SIZE\<close> only; a negative index reads outside the list in C, and the
  model yields \<open>NULL\<close> for it.
\<close>

definition PyList_GET_ITEM :: "PyObject list \<Rightarrow> int \<Rightarrow> PyObject" where
  "PyList_GET_ITEM xs i = (if 0 \<le> i \<and> i < int (length xs) then xs ! nat i else NULL)"

definition PyList_GET_SIZE :: "PyObject list \<Rightarrow> int" where
  "PyList_GET_SIZE xs = int (length xs)"

definition PyTuple_GET_SIZE :: "PyObject list \<Rightarrow> int" where
  "PyTuple_GET_SIZE xs = int (length xs)"

text \<open>
  \<open>PyObject_RichCompareBool(a, b, Py_EQ)\<close>: 1 for the same object and for objects that
  are \<open>==\<close>, 0 for others, -1 when the comparison raises. Frames compare by identity;
  code objects and dictionaries compare by content in Python, and the model takes two
  addresses to hold objects that differ.
\<close>

fun raising :: "PyObject \<Rightarrow> bool" where
  "raising (PyRaising a) = True"
| "raising obj = False"

definition py_eq :: "PyObject \<Rightarrow> PyObject \<Rightarrow> int" where
  "py_eq a b =
     (if a = b then 1
      else if raising a \<or> raising b then -1
      else if key_of a = key_of b then 1 else 0)"

text \<open>
  \<open>PySequence_Contains\<close> on a tuple compares the elements in order: 1 at the first that
  is equal, -1 at the first whose comparison raises, 0 at the end.
\<close>

fun PySequence_Contains :: "PyObject list \<Rightarrow> PyObject \<Rightarrow> int" where
  "PySequence_Contains [] x = 0"
| "PySequence_Contains (e # es) x =
     (if py_eq e x = -1 then -1
      else if py_eq e x = 1 then 1
      else PySequence_Contains es x)"

subsection \<open>stop\_here\<close>

text \<open>
  Lines 181 to 191 of the source: the decision once the module is known not to be
  skipped. The result is the C int: 1 to stop, 0 not to, -1 for an error.
\<close>

definition stop_here_lineno :: "world \<Rightarrow> addr \<Rightarrow> int" where
  "stop_here_lineno w frame =
     (case PyLong_AsLong (stop_lineno (bdb w)) of
        None \<Rightarrow> -1
      | Some v \<Rightarrow>
          (let lineno = int_of_long v in
           if PyFrame frame = stopframe (bdb w) \<or> stopframe (bdb w) = Py_None then
             (if lineno = -1 then 0
              else if f_lineno (frames w frame) \<ge> lineno then 1 else 0)
           else 0))"

definition stop_here :: "env \<Rightarrow> world \<Rightarrow> addr \<Rightarrow> int \<times> world" where
  "stop_here env w frame =
     (if PyTuple_GET_SIZE (skip_modules (bdb w)) \<noteq> 0 then
        (let (result, w1) = PyObject_CallMethod env w ''is_skipped_module'' [PyFrame frame] in
         if result = NULL then (-1, w1)
         else if PyObject_IsTrue (dicts w1) result \<noteq> 0 then (0, w1)
         else (stop_here_lineno w1 frame, w1))
      else (stop_here_lineno w frame, w))"

subsection \<open>bkpt\_in\_code and bkpt\_at\_line\<close>

text \<open>
  Lines 220 to 248 of the source: the two-level lookup, once the key \<open>filename\<close> is
  known. On success the three cache fields of the tracer are assigned together and the
  module's breakpoints are returned; otherwise the result is \<open>Py_None\<close> and the tracer
  is left as it is.
\<close>

definition bkpt_lookup :: "env \<Rightarrow> world \<Rightarrow> addr \<Rightarrow> PyObject \<Rightarrow> PyObject \<times> world" where
  "bkpt_lookup env w frame filename =
     (let code = codes env (f_code (frames w frame));
          mbps = PyDict_GetItem (dicts w) (breakpoints (bdb w)) filename in
      if mbps \<noteq> NULL \<and> co_firstlineno code < PyList_GET_SIZE (linenumbers (bdb w)) then
        (let firstlineno = PyList_GET_ITEM (linenumbers (bdb w)) (co_firstlineno code) in
         if firstlineno \<noteq> Py_None then
           (let cbps = PyDict_GetItem (dicts w) mbps firstlineno in
            if cbps \<noteq> NULL then
              (mbps,
               w\<lparr>bdb := (bdb w)\<lparr>module_bps := mbps,
                                  code_bps := cbps,
                                  cur_f_code := Some (f_code (frames w frame))\<rparr>\<rparr>)
            else (Py_None, w))
         else (Py_None, w))
      else (Py_None, w))"

text \<open>
  \<open>bkpt_in_code\<close>: lines 204 to 218 fold the file name through \<open>lcfilename_cache\<close> when
  the tracer was built with \<open>to_lowercase\<close>, then the lookup follows. A failure of
  \<open>lower\<close> or of \<open>PyDict_SetItem\<close> returns \<open>NULL\<close>.
\<close>

definition bkpt_in_code :: "env \<Rightarrow> world \<Rightarrow> addr \<Rightarrow> PyObject \<times> world" where
  "bkpt_in_code env w frame =
     (let filename = co_filename (codes env (f_code (frames w frame))) in
      if lcfilename_cache (bdb w) \<noteq> NULL then
        (let lc_filename = PyDict_GetItem (dicts w) (lcfilename_cache (bdb w)) filename in
         if lc_filename = NULL then
           (let lc_filename = str_lower env filename in
            if lc_filename = NULL then (NULL, w)
            else
              (let (rc, h) =
                     PyDict_SetItem (dicts w) (lcfilename_cache (bdb w)) filename lc_filename in
               if rc \<noteq> 0 then (NULL, w)
               else bkpt_lookup env (w\<lparr>dicts := h\<rparr>) frame lc_filename))
         else bkpt_lookup env w frame lc_filename)
      else bkpt_lookup env w frame filename)"

text \<open>
  Lines 275 to 291 of the source: is the current line a key of the cached per-function
  dictionary \<open>self->code_bps\<close>?
\<close>

definition bkpt_line_check :: "world \<Rightarrow> addr \<Rightarrow> PyObject \<Rightarrow> PyObject" where
  "bkpt_line_check w frame mbps =
     (if f_lineno (frames w frame) < PyList_GET_SIZE (linenumbers (bdb w)) then
        (let lineno = PyList_GET_ITEM (linenumbers (bdb w)) (f_lineno (frames w frame)) in
         if lineno \<noteq> Py_None then
           (let haskey = PyDict_Contains (dicts w) (code_bps (bdb w)) lineno in
            if haskey = -1 then NULL
            else if haskey \<noteq> 0 then mbps
            else Py_None)
         else Py_None)
      else Py_None)"

definition bkpt_at_line :: "env \<Rightarrow> world \<Rightarrow> addr \<Rightarrow> PyObject \<times> world" where
  "bkpt_at_line env w frame =
     (if Some (f_code (frames w frame)) = cur_f_code (bdb w) then
        (bkpt_line_check w frame (module_bps (bdb w)), w)
      else
        (let (mbps, w1) = bkpt_in_code env w frame in
         if mbps = NULL then (NULL, w1)
         else if mbps = Py_None then (Py_None, w1)
         else (bkpt_line_check w1 frame mbps, w1)))"

subsection \<open>user\_method\<close>

text \<open>
  The handler \<open>name\<close> is called with the frame (\<open>user_line\<close>) or with the frame and
  \<open>arg\<close>; then \<open>get_traceobj\<close> gives the object to install as the frame's trace
  function. \<open>PyFrame_FastToLocals\<close> and \<open>PyFrame_LocalsToFast\<close> around the call copy the
  frame's local variables, which the model does not hold.
\<close>

definition user_method ::
    "env \<Rightarrow> world \<Rightarrow> addr \<Rightarrow> string \<Rightarrow> PyObject \<Rightarrow> PyObject \<times> world" where
  "user_method env w frame name arg =
     (let w1 = (if botframe (bdb w) = Py_None
                then w\<lparr>bdb := (bdb w)\<lparr>botframe := PyFrame frame\<rparr>\<rparr> else w);
          w2 = w1\<lparr>bdb := (bdb w1)\<lparr>topframe := PyFrame frame, topframe_locals := Py_None\<rparr>\<rparr>;
          (result, w3) =
            (if name = ''user_line'' then PyObject_CallMethod env w2 name [PyFrame frame]
             else PyObject_CallMethod env w2 name [PyFrame frame, arg]) in
      if result = NULL then (NULL, w3)
      else
        PyObject_CallMethod env
          (w3\<lparr>bdb := (bdb w3)\<lparr>topframe := Py_None, topframe_locals := Py_None\<rparr>\<rparr>)
          ''get_traceobj'' [])"

subsection \<open>tracer\<close>

text \<open>
  The body of \<open>tracer\<close> is a chain of four branches, one per kind of event. A branch
  leaves by \<open>goto fin\<close> with a value in \<open>result\<close>, by \<open>goto fail\<close>, or by reaching the end
  of the chain, where \<open>result\<close> becomes \<open>self\<close>.
\<close>

datatype ctl = GotoFin PyObject | GotoFail | Next

definition tracer_line :: "env \<Rightarrow> world \<Rightarrow> addr \<Rightarrow> ctl \<times> world" where
  "tracer_line env w frame =
     (let (rc, w1) = stop_here env w frame in
      if rc = -1 then (GotoFail, w1)
      else if rc \<noteq> 0 then
        (let (result, w2) = user_method env w1 frame ''user_line'' NULL in
         (GotoFin result, w2))
      else
        (let (mbps, w2) = bkpt_at_line env w1 frame in
         if mbps = NULL then (GotoFail, w2)
         else if mbps = Py_None then (Next, w2)
         else
           (let (result, w3) = user_method env w2 frame ''bkpt_user_line'' mbps in
            (GotoFin result, w3))))"

definition tracer_call :: "env \<Rightarrow> world \<Rightarrow> addr \<Rightarrow> PyObject \<Rightarrow> ctl \<times> world" where
  "tracer_call env w frame arg =
     (if ignore_first_call_event (bdb w) \<noteq> 0 then
        (GotoFin PyBdbTracer, w\<lparr>bdb := (bdb w)\<lparr>ignore_first_call_event := 0\<rparr>\<rparr>)
      else
        (let rc = PySequence_Contains (skip_calls (bdb w)) (PyCode (f_code (frames w frame))) in
         if rc = -1 then (GotoFail, w)
         else if rc \<noteq> 0 then (GotoFin Py_None, w)
         else
           (let (rc, w1) = stop_here env w frame in
            if rc = -1 then (GotoFail, w1)
            else
              (let (result, w2) = bkpt_in_code env w1 frame in
               if result = NULL then (GotoFail, w2)
               else if rc = 0 \<and> result = Py_None then (GotoFin result, w2)
               else if rc \<noteq> 0 then
                 (let (result, w3) = user_method env w2 frame ''user_call'' arg in
                  (GotoFin result, w3))
               else (Next, w2)))))"

text \<open>
  Lines 431 to 451: tracing moves to the caller. The caller gets the tracer as its trace
  function only when it has none, and the step target is cleared.
\<close>

definition propagate_to_caller :: "env \<Rightarrow> world \<Rightarrow> addr \<Rightarrow> world" where
  "propagate_to_caller env w frame =
     (let w1 =
        (case f_back (frames w frame) of
           None \<Rightarrow> w
         | Some b \<Rightarrow>
             (if f_trace (frames w b) = NULL then
                w\<lparr>frames := (frames w)
                     (b := (frames w b)\<lparr>f_lineno := PyFrame_GetLineNumber env (frames w b),
                                         f_trace := PyBdbTracer\<rparr>)\<rparr>
              else w)) in
      w1\<lparr>bdb := (bdb w1)\<lparr>stopframe := Py_None, stop_lineno := PyLong 0\<rparr>\<rparr>)"

text \<open>Lines 421 to 451: the body of the first \<open>if\<close> of the RETURN branch.\<close>

definition tracer_return_stop :: "env \<Rightarrow> world \<Rightarrow> addr \<Rightarrow> PyObject \<Rightarrow> ctl \<times> world" where
  "tracer_return_stop env w frame arg =
     (let (result, w2) = user_method env w frame ''user_return'' arg in
      if result = NULL then (GotoFail, w2)
      else if result = Py_None then (GotoFin result, w2)
      else
        (case PyLong_AsLong (stop_lineno (bdb w2)) of
           None \<Rightarrow> (GotoFail, w2)
         | Some v \<Rightarrow>
             (let lineno = int_of_long v in
              if PyFrame frame \<noteq> botframe (bdb w2) \<and>
                 ((stopframe (bdb w2) = Py_None \<and> lineno = 0) \<or>
                  PyFrame frame = stopframe (bdb w2))
              then (Next, propagate_to_caller env w2 frame)
              else (Next, w2))))"

definition tracer_return :: "env \<Rightarrow> world \<Rightarrow> addr \<Rightarrow> PyObject \<Rightarrow> ctl \<times> world" where
  "tracer_return env w frame arg =
     (let (rc, w1) = stop_here env w frame in
      if rc = -1 then (GotoFail, w1)
      else
        (let (c, w2) =
               (if rc \<noteq> 0 \<or> PyFrame frame = stopframe (bdb w1)
                then tracer_return_stop env w1 frame arg else (Next, w1)) in
         case c of
           Next \<Rightarrow>
             (if PyFrame frame = botframe (bdb w2) then
                (let (result, w3) =
                       PyObject_CallMethod env w2 ''stop_tracing'' [PyFrame frame] in
                 if result = NULL then (GotoFail, w3) else (GotoFin Py_None, w3))
              else (Next, w2))
         | _ \<Rightarrow> (c, w2)))"

definition tracer_exception :: "env \<Rightarrow> world \<Rightarrow> addr \<Rightarrow> PyObject \<Rightarrow> ctl \<times> world" where
  "tracer_exception env w frame arg =
     (let (rc, w1) = stop_here env w frame in
      if rc = -1 then (GotoFail, w1)
      else if rc \<noteq> 0 then
        (let (result, w2) = user_method env w1 frame ''user_exception'' arg in
         (GotoFin result, w2))
      else (Next, w1))"

text \<open>The chain of branches (lines 360 to 475).\<close>

definition tracer_dispatch ::
    "env \<Rightarrow> world \<Rightarrow> addr \<Rightarrow> event \<Rightarrow> PyObject \<Rightarrow> ctl \<times> world" where
  "tracer_dispatch env w frame what arg =
     (if what = PyTrace_LINE then tracer_line env w frame
      else if what = PyTrace_CALL then tracer_call env w frame arg
      else if what = PyTrace_RETURN then tracer_return env w frame arg
      else if what = PyTrace_EXCEPTION then tracer_exception env w frame arg
      else (Next, w))"

text \<open>
  The label \<open>fail\<close> (lines 493 to 498): the frame goes into the traceback of the pending
  exception, the trace function is removed from the interpreter, and the frame's own
  trace function is cleared.
\<close>

definition tracer_fail :: "world \<Rightarrow> addr \<Rightarrow> int \<times> world" where
  "tracer_fail w frame =
     (-1, w\<lparr>tracebacks := frame # tracebacks w,
            c_traceobj := NULL,
            frames := (frames w)(frame := (frames w frame)\<lparr>f_trace := NULL\<rparr>)\<rparr>)"

text \<open>The label \<open>fin\<close> (lines 480 to 491).\<close>

definition tracer_fin :: "world \<Rightarrow> addr \<Rightarrow> PyObject \<Rightarrow> int \<times> world" where
  "tracer_fin w frame result =
     (if result = NULL then tracer_fail w frame
      else if result \<noteq> Py_None then
        (0, w\<lparr>frames := (frames w)(frame := (frames w frame)\<lparr>f_trace := result\<rparr>)\<rparr>)
      else (0, w))"

definition tracer :: "env \<Rightarrow> world \<Rightarrow> addr \<Rightarrow> event \<Rightarrow> PyObject \<Rightarrow> int \<times> world" where
  "tracer env w frame what arg =
     (if what \<noteq> PyTrace_CALL \<and> f_trace (frames w frame) = NULL then (0, w)
      else
        (let arg = (if arg = NULL then Py_None else arg);
             (c, w1) = tracer_dispatch env w frame what arg in
         case c of
           GotoFin result \<Rightarrow> tracer_fin w1 frame result
         | GotoFail \<Rightarrow> tracer_fail w1 frame
         | Next \<Rightarrow> tracer_fin w1 frame PyBdbTracer))"

subsection \<open>The methods reset, stop\_here and set\_trace\_dispatch, and the constructor\<close>

text \<open>
  \<open>BdbTracer_reset\<close>. The arguments are the C variables \<open>ignore\<close> and \<open>botframe\<close> after
  parsing: \<open>NULL\<close> for an argument that the caller left out. The format \<open>O!\<close> with
  \<open>PyBool_Type\<close> refuses an \<open>ignore\<close> that is no bool: the method then returns \<open>NULL\<close> and
  nothing is assigned. The C expression \<open>1 ? ignore != Py_False : 0\<close> is
  \<open>ignore != Py_False\<close>.
\<close>

definition BdbTracer_reset :: "world \<Rightarrow> PyObject \<Rightarrow> PyObject \<Rightarrow> PyObject \<times> world" where
  "BdbTracer_reset w ignore botframe_arg =
     (if ignore \<noteq> NULL \<and> ignore \<noteq> Py_True \<and> ignore \<noteq> Py_False then (NULL, w)
      else
        (Py_None,
         w\<lparr>bdb := (bdb w)
             \<lparr>ignore_first_call_event := (if ignore \<noteq> Py_False then 1 else 0),
              botframe := (if botframe_arg = NULL then Py_None else botframe_arg),
              quitting := Py_False,
              topframe := Py_None,
              topframe_locals := Py_None,
              stopframe := Py_None,
              stop_lineno := PyLong 0\<rparr>\<rparr>))"

text \<open>\<open>BdbTracer_stop_here\<close>: the format \<open>O!\<close> with \<open>PyFrame_Type\<close> wants a frame.\<close>

definition BdbTracer_stop_here :: "env \<Rightarrow> world \<Rightarrow> PyObject \<Rightarrow> PyObject \<times> world" where
  "BdbTracer_stop_here env w arg =
     (case arg of
        PyFrame frame \<Rightarrow>
          (let (rc, w1) = stop_here env w frame in
           if rc = -1 then (NULL, w1)
           else if rc \<noteq> 0 then (Py_True, w1)
           else (Py_False, w1))
      | _ \<Rightarrow> (NULL, w))"

definition BdbTracer_set_trace_dispatch :: "world \<Rightarrow> PyObject \<times> world" where
  "BdbTracer_set_trace_dispatch w = (Py_None, w\<lparr>c_traceobj := PyBdbTracer\<rparr>)"

text \<open>
  The three methods that the class leaves to its Python subclass: in C each returns
  \<open>NotImplemented\<close>.
\<close>

definition BdbTracer_stop_tracing :: "world \<Rightarrow> PyObject \<times> world" where
  "BdbTracer_stop_tracing w = (Py_NotImplemented, w)"

definition BdbTracer_is_skipped_module :: "world \<Rightarrow> PyObject \<times> world" where
  "BdbTracer_is_skipped_module w = (Py_NotImplemented, w)"

definition BdbTracer_get_traceobj :: "world \<Rightarrow> PyObject \<times> world" where
  "BdbTracer_get_traceobj w = (Py_NotImplemented, w)"

text \<open>
  \<open>BdbTracer_init\<close>. \<open>lowercase\<close> must be a bool; the two tuples are optional. The
  tuples and the list are held by value, so the \<open>NULL\<close> that the C code first stores in
  \<open>skip_modules\<close>, \<open>skip_calls\<close> and \<open>linenumbers\<close> is the empty sequence here, and building
  the empty tuple or list is taken to succeed. \<open>reset\<close> is called as a method of \<open>self\<close>.
\<close>

definition BdbTracer_init ::
    "env \<Rightarrow> world \<Rightarrow> PyObject \<Rightarrow> PyObject list option \<Rightarrow> PyObject list option \<Rightarrow> int \<times> world"
  where
  "BdbTracer_init env w lowercase skip_modules_arg skip_calls_arg =
     (let w0 = w\<lparr>bdb := (bdb w)
                  \<lparr>breakpoints := NULL, botframe := NULL, quitting := NULL,
                   topframe := NULL, topframe_locals := NULL, stopframe := NULL,
                   stop_lineno := NULL, skip_modules := [], skip_calls := [],
                   linenumbers := [], module_bps := NULL, code_bps := NULL,
                   cur_f_code := None, lcfilename_cache := NULL\<rparr>\<rparr> in
      if lowercase \<noteq> Py_True \<and> lowercase \<noteq> Py_False then (-1, w0)
      else
        (let (cache, h1) =
               (if lowercase = Py_True then PyDict_New env (dicts w0) else (NULL, dicts w0));
             w1 = w0\<lparr>dicts := h1\<rparr> in
         if lowercase = Py_True \<and> cache = NULL then (-1, w1)
         else
           (let w2 = w1\<lparr>bdb := (bdb w1)
                         \<lparr>lcfilename_cache := cache,
                          skip_modules := (case skip_modules_arg of None \<Rightarrow> [] | Some t \<Rightarrow> t),
                          skip_calls := (case skip_calls_arg of None \<Rightarrow> [] | Some t \<Rightarrow> t)\<rparr>\<rparr>;
                (bps, h3) = PyDict_New env (dicts w2);
                w3 = w2\<lparr>dicts := h3\<rparr> in
            if bps = NULL then (-1, w3)
            else
              (let w4 = w3\<lparr>bdb := (bdb w3)\<lparr>breakpoints := bps, linenumbers := []\<rparr>\<rparr>;
                   (result, w5) = PyObject_CallMethod env w4 ''reset'' [] in
               if result = NULL then (-1, w5) else (0, w5)))))"

subsection \<open>A small session on which the functions are run\<close>

text \<open>
  One breakpoint at line 10 of \<open>/a.py\<close>, in the function that starts at line 1 (code
  object 7). Frame 1 runs that function at line 10 and is traced; its caller, frame 2,
  is the bottom frame and has no trace function; frame 3 is a second activation of the
  function, called from frame 1 and at line 11. The handlers do nothing;
  \<open>is_skipped_module\<close> answers \<open>skipped\<close> and \<open>get_traceobj\<close> answers \<open>traceobj\<close>.
\<close>

definition demo_env :: "PyObject \<Rightarrow> PyObject \<Rightarrow> env" where
  "demo_env skipped traceobj =
     \<lparr>codes = (\<lambda>c. \<lparr>co_filename = PyUnicode (if c = 7 then ''/a.py'' else ''/b.py''),
                      co_firstlineno = 1\<rparr>),
      py_method = (\<lambda>name args w.
         if name = ''is_skipped_module'' then (skipped, w)
         else if name = ''get_traceobj'' then (traceobj, w)
         else (Py_None, w)),
      str_lower = (\<lambda>x. x),
      PyFrame_GetLineNumber = (\<lambda>f. 3),
      PyDict_New = (\<lambda>h. (PyDict 200, h(200 := [])))\<rparr>"

definition demo_bdb :: BdbTracer where
  "demo_bdb =
     \<lparr>breakpoints = PyDict 100, botframe = PyFrame 2, quitting = Py_False,
      topframe = Py_None, topframe_locals = Py_None, stopframe = Py_None,
      stop_lineno = PyLong 0, skip_modules = [], skip_calls = [],
      linenumbers = [Py_None, PyLong 1, Py_None, Py_None, Py_None, Py_None, Py_None,
                     Py_None, Py_None, Py_None, PyLong 10, Py_None],
      ignore_first_call_event = 0, lcfilename_cache = NULL, module_bps = NULL,
      code_bps = NULL, cur_f_code = None\<rparr>"

definition demo_world :: world where
  "demo_world =
     \<lparr>bdb = demo_bdb,
      frames = (\<lambda>a. if a = 1
                     then \<lparr>f_back = Some 2, f_code = 7, f_trace = PyBdbTracer, f_lineno = 10\<rparr>
                     else if a = 3
                     then \<lparr>f_back = Some 1, f_code = 7, f_trace = PyBdbTracer, f_lineno = 11\<rparr>
                     else \<lparr>f_back = None, f_code = 8, f_trace = NULL, f_lineno = 3\<rparr>),
      dicts = (\<lambda>a. if a = 100 then [(PyUnicode ''/a.py'', PyDict 101)]
                    else if a = 101 then [(PyLong 1, PyDict 102)]
                    else if a = 102 then [(PyLong 10, PyOther 500)]
                    else []),
      c_traceobj = PyBdbTracer,
      tracebacks = []\<rparr>"

text \<open>The same session once the breakpoints of code object 7 have been resolved.\<close>

definition demo_cached :: world where
  "demo_cached =
     demo_world\<lparr>bdb := demo_bdb\<lparr>module_bps := PyDict 101, code_bps := PyDict 102,
                                  cur_f_code := Some 7\<rparr>\<rparr>"

text \<open>
  The session with handlers that do nothing, except that the method \<open>name\<close> raises.
\<close>

definition demo_failing :: "string \<Rightarrow> env" where
  "demo_failing name =
     (demo_env Py_False PyBdbTracer)
       \<lparr>py_method := (\<lambda>n args w. if n = name then (NULL, w)
                                  else py_method (demo_env Py_False PyBdbTracer) n args w)\<rparr>"

subsection \<open>Vocabulary of the properties\<close>

text \<open>
  The two calls of interpreted code in \<open>user_method\<close>: the handler is called on
  \<open>handler_entry\<close>, the state after lines 300 to 314, with the arguments
  \<open>handler_args\<close> (lines 318 to 321); \<open>get_traceobj\<close> is called on \<open>handler_exit\<close> of the
  state the handler left (lines 328 to 336).
\<close>

definition handler_entry :: "world \<Rightarrow> addr \<Rightarrow> world" where
  "handler_entry w frame =
     (let w1 = (if botframe (bdb w) = Py_None
                then w\<lparr>bdb := (bdb w)\<lparr>botframe := PyFrame frame\<rparr>\<rparr> else w) in
      w1\<lparr>bdb := (bdb w1)\<lparr>topframe := PyFrame frame, topframe_locals := Py_None\<rparr>\<rparr>)"

definition handler_args :: "string \<Rightarrow> addr \<Rightarrow> PyObject \<Rightarrow> PyObject list" where
  "handler_args name frame arg =
     (if name = ''user_line'' then [PyFrame frame] else [PyFrame frame, arg])"

definition handler_exit :: "world \<Rightarrow> world" where
  "handler_exit w = w\<lparr>bdb := (bdb w)\<lparr>topframe := Py_None, topframe_locals := Py_None\<rparr>\<rparr>"

text \<open>
  The invariant of the last-resolved cache: a cached code object comes with both cached
  dictionaries.
\<close>

definition cache_inv :: "BdbTracer \<Rightarrow> bool" where
  "cache_inv t \<longleftrightarrow> (cur_f_code t \<noteq> None \<longrightarrow> module_bps t \<noteq> NULL \<and> code_bps t \<noteq> NULL)"

definition cache_fields :: "world \<Rightarrow> PyObject \<times> PyObject \<times> addr option" where
  "cache_fields w = (module_bps (bdb w), code_bps (bdb w), cur_f_code (bdb w))"

text \<open>
  The uncached resolution path is the one \<open>bkpt_at_line\<close> takes when no code object is
  cached: \<open>uncached w\<close> is \<open>w\<close> with the cached code object forgotten.
\<close>

definition uncached :: "world \<Rightarrow> world" where
  "uncached w = w\<lparr>bdb := (bdb w)\<lparr>cur_f_code := None\<rparr>\<rparr>"

text \<open>
  The cache is coherent for a frame when it holds the frame's code object and resolving
  through the index, from the state without the cache, gives back the very state: the
  cached dictionaries are the ones the index holds now. The comment in the structure
  asks the Python module to keep it so.
\<close>

definition cache_coherent :: "env \<Rightarrow> world \<Rightarrow> addr \<Rightarrow> bool" where
  "cache_coherent env w frame \<longleftrightarrow>
     cur_f_code (bdb w) = Some (f_code (frames w frame)) \<and>
     snd (bkpt_in_code env (uncached w) frame) = w"

text \<open>
  Three notions used in the proofs about \<open>bkpt_lookup\<close> and \<open>bkpt_in_code\<close>: the guard
  under which the lookup finds breakpoints (the conjunction of the tests of lines 221
  to 227), the state it then returns, and the key it is called with when the file name
  needs no call of \<open>lower\<close>.
\<close>

definition lookup_finds :: "env \<Rightarrow> world \<Rightarrow> addr \<Rightarrow> PyObject \<Rightarrow> bool" where
  "lookup_finds env w frame fn \<longleftrightarrow>
     (let code = codes env (f_code (frames w frame));
          mbps = PyDict_GetItem (dicts w) (breakpoints (bdb w)) fn in
      mbps \<noteq> NULL \<and> co_firstlineno code < PyList_GET_SIZE (linenumbers (bdb w)) \<and>
      PyList_GET_ITEM (linenumbers (bdb w)) (co_firstlineno code) \<noteq> Py_None \<and>
      PyDict_GetItem (dicts w) mbps
        (PyList_GET_ITEM (linenumbers (bdb w)) (co_firstlineno code)) \<noteq> NULL)"

definition cache_filled :: "env \<Rightarrow> world \<Rightarrow> addr \<Rightarrow> PyObject \<Rightarrow> world" where
  "cache_filled env w frame fn =
     (let code = codes env (f_code (frames w frame));
          mbps = PyDict_GetItem (dicts w) (breakpoints (bdb w)) fn in
      w\<lparr>bdb := (bdb w)
          \<lparr>module_bps := mbps,
           code_bps := PyDict_GetItem (dicts w) mbps
                         (PyList_GET_ITEM (linenumbers (bdb w)) (co_firstlineno code)),
           cur_f_code := Some (f_code (frames w frame))\<rparr>\<rparr>)"

definition known_key :: "env \<Rightarrow> world \<Rightarrow> addr \<Rightarrow> PyObject option" where
  "known_key env w frame =
     (let filename = co_filename (codes env (f_code (frames w frame))) in
      if lcfilename_cache (bdb w) \<noteq> NULL then
        (let lc_filename = PyDict_GetItem (dicts w) (lcfilename_cache (bdb w)) filename in
         if lc_filename = NULL then None else Some lc_filename)
      else Some filename)"

section \<open>Properties\<close>

subsection \<open>stop\_here\<close>

lemma int_of_long_id:
  "- 2147483648 \<le> n \<Longrightarrow> n \<le> 2147483647 \<Longrightarrow> int_of_long n = n"
  by (simp add: int_of_long_def)

text \<open>
  When the tuple \<open>skip_modules\<close> is empty, or \<open>is_skipped_module\<close> answers with a false
  object, the result is decided by lines 181 to 191 on the state \<open>w1\<close> that the call
  leaves.
\<close>

lemma stop_here_not_skipped:
  assumes "skip_modules (bdb w) = [] \<and> w1 = w \<or>
           skip_modules (bdb w) \<noteq> [] \<and>
           PyObject_CallMethod env w ''is_skipped_module'' [PyFrame frame] = (result, w1) \<and>
           result \<noteq> NULL \<and> PyObject_IsTrue (dicts w1) result = 0"
  shows "stop_here env w frame = (stop_here_lineno w1 frame, w1)"
  using assms by (auto simp: stop_here_def PyTuple_GET_SIZE_def)

lemma stop_here_result: "fst (stop_here env w frame) \<in> {-1, 0, 1}"
  by (auto simp: stop_here_def stop_here_lineno_def Let_def
           split: prod.splits option.splits)

text \<open>
  C1, as the code has it. With \<open>skip_modules\<close> empty (or the frame not skipped) and
  \<open>stopframe\<close> \<open>None\<close>: when \<open>stop_lineno\<close> is -1, \<open>stop_here\<close> returns 0 (false) for every
  frame, -1 being the value that never stops; when \<open>stop_lineno\<close> is 0, it returns 1
  (true) for every frame whose line is not negative.
\<close>

theorem stop_here_unconstrained:
  assumes "skip_modules (bdb w) = [] \<and> w1 = w \<or>
           skip_modules (bdb w) \<noteq> [] \<and>
           PyObject_CallMethod env w ''is_skipped_module'' [PyFrame frame] = (result, w1) \<and>
           result \<noteq> NULL \<and> PyObject_IsTrue (dicts w1) result = 0"
    and "stopframe (bdb w1) = Py_None"
  shows "(stop_lineno (bdb w1) = PyLong (-1) \<longrightarrow> stop_here env w frame = (0, w1)) \<and>
         (stop_lineno (bdb w1) = PyLong 0 \<and> 0 \<le> f_lineno (frames w1 frame) \<longrightarrow>
            stop_here env w frame = (1, w1))"
  using assms(2) unfolding stop_here_not_skipped [OF assms(1)]
  by (simp add: stop_here_lineno_def int_of_long_def)

theorem stop_here_unconstrained_witness:
  "stop_here (demo_env Py_False PyBdbTracer)
      (demo_world\<lparr>bdb := demo_bdb\<lparr>stop_lineno := PyLong (-1)\<rparr>\<rparr>) 1 =
     (0, demo_world\<lparr>bdb := demo_bdb\<lparr>stop_lineno := PyLong (-1)\<rparr>\<rparr>) \<and>
   stop_here (demo_env Py_False PyBdbTracer)
      (demo_world\<lparr>bdb := demo_bdb\<lparr>skip_modules := [PyUnicode ''os'']\<rparr>\<rparr>) 1 =
     (1, demo_world\<lparr>bdb := demo_bdb\<lparr>skip_modules := [PyUnicode ''os'']\<rparr>\<rparr>)"
  using stop_here_unconstrained
          [of "demo_world\<lparr>bdb := demo_bdb\<lparr>stop_lineno := PyLong (-1)\<rparr>\<rparr>"
              "demo_world\<lparr>bdb := demo_bdb\<lparr>stop_lineno := PyLong (-1)\<rparr>\<rparr>"
              "demo_env Py_False PyBdbTracer" 1 Py_False]
        stop_here_unconstrained
          [of "demo_world\<lparr>bdb := demo_bdb\<lparr>skip_modules := [PyUnicode ''os'']\<rparr>\<rparr>"
              "demo_world\<lparr>bdb := demo_bdb\<lparr>skip_modules := [PyUnicode ''os'']\<rparr>\<rparr>"
              "demo_env Py_False PyBdbTracer" 1 Py_False]
  by (simp add: PyObject_CallMethod_def demo_env_def demo_world_def demo_bdb_def)

text \<open>
  C1 as the specification states it fails: with \<open>skip_modules\<close> empty, \<open>stopframe\<close>
  \<open>None\<close> and \<open>stop_lineno\<close> -1, \<open>stop_here\<close> returns 0 and the method \<open>stop_here\<close>
  returns \<open>False\<close>.
\<close>

theorem stop_here_minus_one_counterexample:
  "skip_modules (bdb (demo_world\<lparr>bdb := demo_bdb\<lparr>stop_lineno := PyLong (-1)\<rparr>\<rparr>)) = [] \<and>
   stopframe (bdb (demo_world\<lparr>bdb := demo_bdb\<lparr>stop_lineno := PyLong (-1)\<rparr>\<rparr>)) = Py_None \<and>
   fst (stop_here (demo_env Py_False PyBdbTracer)
          (demo_world\<lparr>bdb := demo_bdb\<lparr>stop_lineno := PyLong (-1)\<rparr>\<rparr>) 1) = 0 \<and>
   fst (BdbTracer_stop_here (demo_env Py_False PyBdbTracer)
          (demo_world\<lparr>bdb := demo_bdb\<lparr>stop_lineno := PyLong (-1)\<rparr>\<rparr>) (PyFrame 1)) = Py_False"
  by (simp add: BdbTracer_stop_here_def stop_here_def stop_here_lineno_def int_of_long_def
        PyTuple_GET_SIZE_def demo_world_def demo_bdb_def)

text \<open>
  C5. When \<open>skip_modules\<close> is not empty and \<open>is_skipped_module\<close> answers with a true
  object, \<open>stop_here\<close> returns 0 and the method \<open>stop_here\<close> returns \<open>False\<close>, whatever
  \<open>stopframe\<close> and \<open>stop_lineno\<close> hold, before or after the call: \<open>stop_lineno\<close> is not
  even decoded.
\<close>

theorem stop_here_skipped:
  assumes "skip_modules (bdb w) \<noteq> []"
    and "PyObject_CallMethod env w ''is_skipped_module'' [PyFrame frame] = (result, w1)"
    and "result \<noteq> NULL" and "PyObject_IsTrue (dicts w1) result \<noteq> 0"
  shows "stop_here env w frame = (0, w1) \<and>
         BdbTracer_stop_here env w (PyFrame frame) = (Py_False, w1)"
  using assms by (simp add: stop_here_def BdbTracer_stop_here_def PyTuple_GET_SIZE_def)

text \<open>
  The witness has a \<open>stop_lineno\<close> that cannot be decoded: lines 181 to 191 alone would
  return -1 on it.
\<close>

theorem stop_here_skipped_witness:
  "stop_here (demo_env Py_True PyBdbTracer)
     (demo_world\<lparr>bdb := demo_bdb\<lparr>skip_modules := [PyUnicode ''os''],
                                  stopframe := PyFrame 1,
                                  stop_lineno := PyUnicode ''junk''\<rparr>\<rparr>) 1 =
   (0, demo_world\<lparr>bdb := demo_bdb\<lparr>skip_modules := [PyUnicode ''os''],
                                     stopframe := PyFrame 1,
                                     stop_lineno := PyUnicode ''junk''\<rparr>\<rparr>) \<and>
   stop_here_lineno
     (demo_world\<lparr>bdb := demo_bdb\<lparr>skip_modules := [PyUnicode ''os''],
                                  stopframe := PyFrame 1,
                                  stop_lineno := PyUnicode ''junk''\<rparr>\<rparr>) 1 = -1"
  using stop_here_skipped
          [of "demo_world\<lparr>bdb := demo_bdb\<lparr>skip_modules := [PyUnicode ''os''],
                                           stopframe := PyFrame 1,
                                           stop_lineno := PyUnicode ''junk''\<rparr>\<rparr>"
              "demo_env Py_True PyBdbTracer" 1 Py_True
              "demo_world\<lparr>bdb := demo_bdb\<lparr>skip_modules := [PyUnicode ''os''],
                                           stopframe := PyFrame 1,
                                           stop_lineno := PyUnicode ''junk''\<rparr>\<rparr>"]
  by (simp add: PyObject_CallMethod_def demo_env_def demo_world_def demo_bdb_def
        stop_here_lineno_def)

text \<open>
  C6, as the code has it. With \<open>skip_modules\<close> empty (or the asked frame \<open>X\<close> not
  skipped), \<open>stopframe\<close> the frame \<open>F\<close> and \<open>stop_lineno\<close> an \<open>N\<close> other than -1 that is
  in the range of the C type \<open>int\<close> (from \<open>-2\<^sup>3\<^sup>1\<close> to \<open>2\<^sup>3\<^sup>1 - 1\<close>): \<open>stop_here\<close> returns 1
  exactly when \<open>X\<close> is \<open>F\<close> and the line of \<open>F\<close> is at least \<open>N\<close>, and 0 otherwise, so 0
  for every frame that is not \<open>F\<close>. The value 0 needs no exclusion.
\<close>

theorem stop_here_line_threshold:
  assumes "skip_modules (bdb w) = [] \<and> w1 = w \<or>
           skip_modules (bdb w) \<noteq> [] \<and>
           PyObject_CallMethod env w ''is_skipped_module'' [PyFrame X] = (result, w1) \<and>
           result \<noteq> NULL \<and> PyObject_IsTrue (dicts w1) result = 0"
    and "stopframe (bdb w1) = PyFrame F"
    and "stop_lineno (bdb w1) = PyLong N"
    and "N \<noteq> -1"
    and "- 2147483648 \<le> N" and "N \<le> 2147483647"
  shows "stop_here env w X = ((if X = F \<and> N \<le> f_lineno (frames w1 X) then 1 else 0), w1) \<and>
         BdbTracer_stop_here env w (PyFrame X) =
           ((if X = F \<and> N \<le> f_lineno (frames w1 X) then Py_True else Py_False), w1)"
proof -
  have run: "stop_here env w X = (stop_here_lineno w1 X, w1)"
    by (rule stop_here_not_skipped [OF assms(1)])
  have "stop_here_lineno w1 X = (if X = F \<and> N \<le> f_lineno (frames w1 X) then 1 else 0)"
    using assms(2-) by (simp add: stop_here_lineno_def int_of_long_id)
  then show ?thesis
    by (auto simp: BdbTracer_stop_here_def run)
qed

theorem stop_here_line_threshold_witness:
  "stop_here (demo_env Py_False PyBdbTracer)
      (demo_world\<lparr>bdb := demo_bdb\<lparr>stopframe := PyFrame 1, stop_lineno := PyLong 10\<rparr>\<rparr>) 1 =
     (1, demo_world\<lparr>bdb := demo_bdb\<lparr>stopframe := PyFrame 1, stop_lineno := PyLong 10\<rparr>\<rparr>) \<and>
   stop_here (demo_env Py_False PyBdbTracer)
      (demo_world\<lparr>bdb := demo_bdb\<lparr>stopframe := PyFrame 1, stop_lineno := PyLong 11\<rparr>\<rparr>) 1 =
     (0, demo_world\<lparr>bdb := demo_bdb\<lparr>stopframe := PyFrame 1, stop_lineno := PyLong 11\<rparr>\<rparr>) \<and>
   stop_here (demo_env Py_False PyBdbTracer)
      (demo_world\<lparr>bdb := demo_bdb\<lparr>stopframe := PyFrame 1, stop_lineno := PyLong 2\<rparr>\<rparr>) 2 =
     (0, demo_world\<lparr>bdb := demo_bdb\<lparr>stopframe := PyFrame 1, stop_lineno := PyLong 2\<rparr>\<rparr>)"
  using stop_here_line_threshold
          [of "demo_world\<lparr>bdb := demo_bdb\<lparr>stopframe := PyFrame 1, stop_lineno := PyLong 10\<rparr>\<rparr>"
              "demo_world\<lparr>bdb := demo_bdb\<lparr>stopframe := PyFrame 1, stop_lineno := PyLong 10\<rparr>\<rparr>"
              "demo_env Py_False PyBdbTracer" 1 Py_False 1 10]
        stop_here_line_threshold
          [of "demo_world\<lparr>bdb := demo_bdb\<lparr>stopframe := PyFrame 1, stop_lineno := PyLong 11\<rparr>\<rparr>"
              "demo_world\<lparr>bdb := demo_bdb\<lparr>stopframe := PyFrame 1, stop_lineno := PyLong 11\<rparr>\<rparr>"
              "demo_env Py_False PyBdbTracer" 1 Py_False 1 11]
        stop_here_line_threshold
          [of "demo_world\<lparr>bdb := demo_bdb\<lparr>stopframe := PyFrame 1, stop_lineno := PyLong 2\<rparr>\<rparr>"
              "demo_world\<lparr>bdb := demo_bdb\<lparr>stopframe := PyFrame 1, stop_lineno := PyLong 2\<rparr>\<rparr>"
              "demo_env Py_False PyBdbTracer" 2 Py_False 1 2]
  by (simp add: demo_world_def demo_bdb_def)

text \<open>
  C6 as the specification states it, for every \<open>N\<close> other than the sentinels, fails
  outside the range of \<open>int\<close>. The frame \<open>F\<close> is frame 1, at line 10. With \<open>stop_lineno\<close>
  \<open>4294967301\<close>, which is \<open>2\<^sup>3\<^sup>2 + 5\<close>, the variable \<open>lineno\<close> of type \<open>int\<close> receives 5 and
  \<open>stop_here\<close> returns 1 for \<open>F\<close>, whose line is below \<open>N\<close>. With \<open>stop_lineno\<close> \<open>2\<^sup>6\<^sup>3\<close>,
  which \<open>PyLong_AsLong\<close> cannot decode, \<open>stop_here\<close> returns -1 for frame 2, which is not
  \<open>F\<close>, and the method \<open>stop_here\<close> raises instead of answering \<open>False\<close>.
\<close>

theorem stop_here_line_threshold_counterexample:
  "stopframe (bdb (demo_world\<lparr>bdb := demo_bdb\<lparr>stopframe := PyFrame 1,
                                                stop_lineno := PyLong 4294967301\<rparr>\<rparr>)) = PyFrame 1 \<and>
   f_lineno (frames demo_world 1) = 10 \<and>
   stop_here (demo_env Py_False PyBdbTracer)
      (demo_world\<lparr>bdb := demo_bdb\<lparr>stopframe := PyFrame 1, stop_lineno := PyLong 4294967301\<rparr>\<rparr>) 1 =
     (1, demo_world\<lparr>bdb := demo_bdb\<lparr>stopframe := PyFrame 1, stop_lineno := PyLong 4294967301\<rparr>\<rparr>) \<and>
   fst (BdbTracer_stop_here (demo_env Py_False PyBdbTracer)
      (demo_world\<lparr>bdb := demo_bdb\<lparr>stopframe := PyFrame 1, stop_lineno := PyLong 4294967301\<rparr>\<rparr>)
      (PyFrame 1)) = Py_True \<and>
   fst (stop_here (demo_env Py_False PyBdbTracer)
      (demo_world\<lparr>bdb := demo_bdb\<lparr>stopframe := PyFrame 1,
                                   stop_lineno := PyLong 9223372036854775808\<rparr>\<rparr>) 2) = -1 \<and>
   fst (BdbTracer_stop_here (demo_env Py_False PyBdbTracer)
      (demo_world\<lparr>bdb := demo_bdb\<lparr>stopframe := PyFrame 1,
                                   stop_lineno := PyLong 9223372036854775808\<rparr>\<rparr>)
      (PyFrame 2)) = NULL"
  by (simp add: BdbTracer_stop_here_def stop_here_def stop_here_lineno_def int_of_long_def
        PyTuple_GET_SIZE_def demo_world_def demo_bdb_def Let_def)

subsection \<open>reset\<close>

text \<open>
  C3, as the code has it. A call of \<open>reset\<close> whose first argument is a bool or is left
  out succeeds, and then \<open>quitting\<close> is \<open>False\<close>, \<open>topframe\<close>, \<open>topframe_locals\<close> and
  \<open>stopframe\<close> are \<open>None\<close>, \<open>stop_lineno\<close> is 0, \<open>botframe\<close> is the second argument
  (\<open>None\<close> when left out), and \<open>ignore_first_call_event\<close> is 0 when the first argument is
  \<open>False\<close> and 1 otherwise: it is stored as given, and it is true when left out.
\<close>

theorem BdbTracer_reset_fields:
  assumes "ignore = NULL \<or> ignore = Py_True \<or> ignore = Py_False"
    and "BdbTracer_reset w ignore bf = (r, w')"
  shows "r = Py_None \<and>
         quitting (bdb w') = Py_False \<and>
         topframe (bdb w') = Py_None \<and>
         topframe_locals (bdb w') = Py_None \<and>
         stopframe (bdb w') = Py_None \<and>
         stop_lineno (bdb w') = PyLong 0 \<and>
         ignore_first_call_event (bdb w') = (if ignore = Py_False then 0 else 1) \<and>
         botframe (bdb w') = (if bf = NULL then Py_None else bf)"
  using assms by (auto simp: BdbTracer_reset_def)

theorem BdbTracer_reset_fields_witness:
  "ignore_first_call_event (bdb (snd (BdbTracer_reset demo_world Py_False (PyFrame 1)))) = 0 \<and>
   botframe (bdb (snd (BdbTracer_reset demo_world Py_False (PyFrame 1)))) = PyFrame 1 \<and>
   ignore_first_call_event (bdb (snd (BdbTracer_reset demo_world Py_True NULL))) = 1 \<and>
   ignore_first_call_event (bdb (snd (BdbTracer_reset demo_world NULL NULL))) = 1 \<and>
   stop_lineno (bdb (snd (BdbTracer_reset demo_world NULL NULL))) = PyLong 0"
  using BdbTracer_reset_fields
          [of Py_False demo_world "PyFrame 1"
              "fst (BdbTracer_reset demo_world Py_False (PyFrame 1))"
              "snd (BdbTracer_reset demo_world Py_False (PyFrame 1))"]
        BdbTracer_reset_fields
          [of Py_True demo_world NULL
              "fst (BdbTracer_reset demo_world Py_True NULL)"
              "snd (BdbTracer_reset demo_world Py_True NULL)"]
        BdbTracer_reset_fields
          [of NULL demo_world NULL
              "fst (BdbTracer_reset demo_world NULL NULL)"
              "snd (BdbTracer_reset demo_world NULL NULL)"]
  by simp

text \<open>
  C3 as the specification states it fails in its last part: \<open>reset()\<close> with no argument
  succeeds and leaves \<open>ignore_first_call_event\<close> at 1, not at 0.
\<close>

theorem BdbTracer_reset_default_counterexample:
  "fst (BdbTracer_reset demo_world NULL NULL) = Py_None \<and>
   ignore_first_call_event (bdb (snd (BdbTracer_reset demo_world NULL NULL))) = 1"
  by (simp add: BdbTracer_reset_def)

subsection \<open>tracer: frames without a trace function\<close>

text \<open>
  C9. A LINE, RETURN or EXCEPTION event (any event but CALL) on a frame whose \<open>f_trace\<close>
  is \<open>NULL\<close> returns 0 and leaves the whole state as it was, for every environment: no
  method is called and nothing is resolved. A CALL event on such a frame is processed:
  with \<open>ignore_first_call_event\<close> set, it clears the flag and installs the tracer on the
  frame.
\<close>

theorem tracer_no_hook:
  "(what \<noteq> PyTrace_CALL \<and> f_trace (frames w frame) = NULL \<longrightarrow>
      tracer env w frame what arg = (0, w)) \<and>
   (f_trace (frames w frame) = NULL \<and> ignore_first_call_event (bdb w) \<noteq> 0 \<longrightarrow>
      tracer env w frame PyTrace_CALL arg =
        (0, w\<lparr>bdb := (bdb w)\<lparr>ignore_first_call_event := 0\<rparr>,
              frames := (frames w)(frame := (frames w frame)\<lparr>f_trace := PyBdbTracer\<rparr>)\<rparr>))"
  by (simp add: tracer_def tracer_dispatch_def tracer_call_def tracer_fin_def)

theorem tracer_no_hook_witness:
  "tracer (demo_env Py_False PyBdbTracer) demo_world 2 PyTrace_LINE NULL = (0, demo_world) \<and>
   tracer (demo_env Py_False PyBdbTracer) demo_world 2 PyTrace_RETURN (PyLong 5) =
     (0, demo_world) \<and>
   tracer (demo_env Py_False PyBdbTracer) demo_world 2 PyTrace_EXCEPTION NULL =
     (0, demo_world) \<and>
   f_trace (frames (snd (tracer (demo_env Py_False PyBdbTracer)
                           (demo_world\<lparr>bdb := demo_bdb\<lparr>ignore_first_call_event := 1\<rparr>\<rparr>)
                           2 PyTrace_CALL NULL)) 2) = PyBdbTracer"
  using tracer_no_hook [of PyTrace_LINE demo_world 2 "demo_env Py_False PyBdbTracer" NULL]
        tracer_no_hook [of PyTrace_RETURN demo_world 2 "demo_env Py_False PyBdbTracer" "PyLong 5"]
        tracer_no_hook [of PyTrace_EXCEPTION demo_world 2 "demo_env Py_False PyBdbTracer" NULL]
        tracer_no_hook [of PyTrace_CALL
                           "demo_world\<lparr>bdb := demo_bdb\<lparr>ignore_first_call_event := 1\<rparr>\<rparr>" 2
                           "demo_env Py_False PyBdbTracer" NULL]
  by (simp add: demo_world_def)

subsection \<open>tracer: the labels fin and fail\<close>

text \<open>An event that passes the test of line 352 goes through the chain of branches.\<close>

lemma tracer_dispatched:
  assumes "what = PyTrace_CALL \<or> f_trace (frames w frame) \<noteq> NULL"
    and "tracer_dispatch env w frame what (if arg = NULL then Py_None else arg) = (c, w1)"
  shows "tracer env w frame what arg =
           (case c of GotoFin result \<Rightarrow> tracer_fin w1 frame result
                    | GotoFail \<Rightarrow> tracer_fail w1 frame
                    | Next \<Rightarrow> tracer_fin w1 frame PyBdbTracer)"
  using assms by (auto simp: tracer_def)


text \<open>Running the model on the small session unfolds these definitions.\<close>

lemmas demo_run =
  tracer_def tracer_dispatch_def tracer_line_def tracer_return_def tracer_return_stop_def
  tracer_exception_def tracer_call_def tracer_fin_def tracer_fail_def
  stop_here_def stop_here_lineno_def user_method_def PyObject_CallMethod_def
  propagate_to_caller_def bkpt_at_line_def bkpt_in_code_def bkpt_lookup_def bkpt_line_check_def
  PyTuple_GET_SIZE_def PyList_GET_SIZE_def PyList_GET_ITEM_def PyDict_GetItem_def
  PyDict_Contains_def dict_lookup_def py_eq_def int_of_long_def
  demo_env_def demo_world_def demo_bdb_def demo_cached_def Let_def



text \<open>The ways into the label \<open>fail\<close> that the LINE, RETURN and EXCEPTION branches share.\<close>

lemma dispatch_stop_here_fails:
  assumes "what = PyTrace_LINE \<or> what = PyTrace_RETURN \<or> what = PyTrace_EXCEPTION"
    and "stop_here env w frame = (-1, w1)"
  shows "tracer_dispatch env w frame what arg = (GotoFail, w1)"
  using assms
  by (auto simp: tracer_dispatch_def tracer_line_def tracer_return_def tracer_exception_def)

lemma dispatch_line_handler_fails:
  assumes "stop_here env w frame = (rc, w1)" and "rc \<noteq> -1" and "rc \<noteq> 0"
    and "user_method env w1 frame ''user_line'' NULL = (NULL, w2)"
  shows "tracer_dispatch env w frame PyTrace_LINE arg = (GotoFin NULL, w2)"
  using assms by (simp add: tracer_dispatch_def tracer_line_def)

lemma dispatch_line_lookup_fails:
  assumes "stop_here env w frame = (0, w1)"
    and "bkpt_at_line env w1 frame = (NULL, w2)"
  shows "tracer_dispatch env w frame PyTrace_LINE arg = (GotoFail, w2)"
  using assms by (simp add: tracer_dispatch_def tracer_line_def)

lemma dispatch_exception_handler_fails:
  assumes "stop_here env w frame = (rc, w1)" and "rc \<noteq> -1" and "rc \<noteq> 0"
    and "user_method env w1 frame ''user_exception'' arg = (NULL, w2)"
  shows "tracer_dispatch env w frame PyTrace_EXCEPTION arg = (GotoFin NULL, w2)"
  using assms by (simp add: tracer_dispatch_def tracer_exception_def)

lemma dispatch_return_handler_fails:
  assumes "stop_here env w frame = (rc, w1)" and "rc \<noteq> -1"
    and "rc \<noteq> 0 \<or> PyFrame frame = stopframe (bdb w1)"
    and "user_method env w1 frame ''user_return'' arg = (NULL, w2)"
  shows "tracer_dispatch env w frame PyTrace_RETURN arg = (GotoFail, w2)"
  using assms by (auto simp: tracer_dispatch_def tracer_return_def tracer_return_stop_def)

lemma dispatch_call_fails:
  assumes "ignore_first_call_event (bdb w) = 0"
    and "PySequence_Contains (skip_calls (bdb w)) (PyCode (f_code (frames w frame))) = 0"
    and "stop_here env w frame = (rc, w1)"
    and "rc = -1 \<and> w2 = w1 \<or> rc \<noteq> -1 \<and> bkpt_in_code env w1 frame = (NULL, w2)"
  shows "tracer_dispatch env w frame PyTrace_CALL arg = (GotoFail, w2)"
  using assms by (auto simp: tracer_dispatch_def tracer_call_def)

lemma tracer_result:
  "fst (tracer env w frame what arg) = 0 \<or> fst (tracer env w frame what arg) = -1"
  by (auto simp: tracer_def tracer_fin_def tracer_fail_def Let_def
           split: prod.splits ctl.splits)

lemma tracer_minus_one:
  assumes "tracer env w frame what arg = (-1, w')"
  shows "\<exists>w1. w' = w1\<lparr>tracebacks := frame # tracebacks w1, c_traceobj := NULL,
                       frames := (frames w1)(frame := (frames w1 frame)\<lparr>f_trace := NULL\<rparr>)\<rparr>"
  using assms
  by (auto simp: tracer_def tracer_fin_def tracer_fail_def Let_def
           split: prod.splits ctl.splits if_splits)

lemma tracer_fails:
  assumes "e = PyTrace_CALL \<or> f_trace (frames w frame) \<noteq> NULL"
    and "tracer_dispatch env w frame e (if arg = NULL then Py_None else arg) = (k, u)"
    and "k = GotoFail \<or> k = GotoFin NULL"
  shows "tracer env w frame e arg = tracer_fail u frame"
  using tracer_dispatched [OF assms(1,2)] assms(3) by (auto simp: tracer_fin_def)

text \<open>
  The label \<open>fail\<close>. \<open>tracer\<close> returns 0 or -1. Whenever it returns -1, the frame heads
  the traceback, the trace function of the interpreter is removed and the frame's own
  trace function is \<open>NULL\<close>: these are the effects of the label \<open>fail\<close>, which changes
  nothing else. Whenever the handling of a dispatched event fails (a \<open>goto fail\<close>, or a
  handler result that is \<open>NULL\<close>), \<open>tracer\<close> is \<open>tracer_fail\<close> on the state the failing
  step left: nothing runs after the failure. The failing steps, by the function of the
  module that reports them: \<open>stop_here\<close> returns -1, \<open>user_method\<close> returns \<open>NULL\<close>,
  \<open>bkpt_at_line\<close> or \<open>bkpt_in_code\<close> returns \<open>NULL\<close>.
\<close>

theorem tracer_failure:
  "(fst (tracer env w frame what arg) = 0 \<or> fst (tracer env w frame what arg) = -1) \<and>
   (tracer env w frame what arg = (-1, w') \<longrightarrow>
      tracebacks w' \<noteq> [] \<and> hd (tracebacks w') = frame \<and> c_traceobj w' = NULL \<and>
      f_trace (frames w' frame) = NULL) \<and>
   tracer_fail v frame =
     (-1, v\<lparr>tracebacks := frame # tracebacks v, c_traceobj := NULL,
            frames := (frames v)(frame := (frames v frame)\<lparr>f_trace := NULL\<rparr>)\<rparr>) \<and>
   ((what = PyTrace_CALL \<or> f_trace (frames w frame) \<noteq> NULL) \<and>
    tracer_dispatch env w frame what (if arg = NULL then Py_None else arg) = (c, w1) \<and>
    (c = GotoFail \<or> c = GotoFin NULL) \<longrightarrow>
      tracer env w frame what arg = tracer_fail w1 frame) \<and>
   ((what = PyTrace_LINE \<or> what = PyTrace_RETURN \<or> what = PyTrace_EXCEPTION) \<and>
    f_trace (frames w frame) \<noteq> NULL \<and> stop_here env w frame = (-1, w2) \<longrightarrow>
      tracer env w frame what arg = tracer_fail w2 frame) \<and>
   (f_trace (frames w frame) \<noteq> NULL \<and> stop_here env w frame = (rc, w2) \<and>
    rc \<noteq> -1 \<and> rc \<noteq> 0 \<and> user_method env w2 frame ''user_line'' NULL = (NULL, w3) \<longrightarrow>
      tracer env w frame PyTrace_LINE arg = tracer_fail w3 frame) \<and>
   (f_trace (frames w frame) \<noteq> NULL \<and> stop_here env w frame = (0, w2) \<and>
    bkpt_at_line env w2 frame = (NULL, w3) \<longrightarrow>
      tracer env w frame PyTrace_LINE arg = tracer_fail w3 frame) \<and>
   (f_trace (frames w frame) \<noteq> NULL \<and> stop_here env w frame = (rc, w2) \<and>
    rc \<noteq> -1 \<and> (rc \<noteq> 0 \<or> PyFrame frame = stopframe (bdb w2)) \<and>
    user_method env w2 frame ''user_return'' (if arg = NULL then Py_None else arg) =
      (NULL, w3) \<longrightarrow>
      tracer env w frame PyTrace_RETURN arg = tracer_fail w3 frame) \<and>
   (f_trace (frames w frame) \<noteq> NULL \<and> stop_here env w frame = (rc, w2) \<and>
    rc \<noteq> -1 \<and> rc \<noteq> 0 \<and>
    user_method env w2 frame ''user_exception'' (if arg = NULL then Py_None else arg) =
      (NULL, w3) \<longrightarrow>
      tracer env w frame PyTrace_EXCEPTION arg = tracer_fail w3 frame) \<and>
   (ignore_first_call_event (bdb w) = 0 \<and>
    PySequence_Contains (skip_calls (bdb w)) (PyCode (f_code (frames w frame))) = 0 \<and>
    stop_here env w frame = (rc, w2) \<and>
    (rc = -1 \<and> w3 = w2 \<or> rc \<noteq> -1 \<and> bkpt_in_code env w2 frame = (NULL, w3)) \<longrightarrow>
      tracer env w frame PyTrace_CALL arg = tracer_fail w3 frame)"
proof (intro conjI impI; (elim conjE)?)
  show "fst (tracer env w frame what arg) = 0 \<or> fst (tracer env w frame what arg) = -1"
    by (rule tracer_result)
next
  assume "tracer env w frame what arg = (-1, w')"
  from tracer_minus_one [OF this] obtain u where
    "w' = u\<lparr>tracebacks := frame # tracebacks u, c_traceobj := NULL,
            frames := (frames u)(frame := (frames u frame)\<lparr>f_trace := NULL\<rparr>)\<rparr>" ..
  then show "tracebacks w' \<noteq> []" "hd (tracebacks w') = frame" "c_traceobj w' = NULL"
    "f_trace (frames w' frame) = NULL"
    by simp_all
next
  show "tracer_fail v frame =
     (-1, v\<lparr>tracebacks := frame # tracebacks v, c_traceobj := NULL,
            frames := (frames v)(frame := (frames v frame)\<lparr>f_trace := NULL\<rparr>)\<rparr>)"
    by (simp add: tracer_fail_def)
next
  assume "what = PyTrace_CALL \<or> f_trace (frames w frame) \<noteq> NULL"
    and "tracer_dispatch env w frame what (if arg = NULL then Py_None else arg) = (c, w1)"
    and "c = GotoFail \<or> c = GotoFin NULL"
  then show "tracer env w frame what arg = tracer_fail w1 frame"
    by (rule tracer_fails)
next
  assume e: "what = PyTrace_LINE \<or> what = PyTrace_RETURN \<or> what = PyTrace_EXCEPTION"
    and h: "f_trace (frames w frame) \<noteq> NULL" and s: "stop_here env w frame = (-1, w2)"
  show "tracer env w frame what arg = tracer_fail w2 frame"
    by (rule tracer_fails [OF _ dispatch_stop_here_fails [OF e s]]) (simp_all add: h)
next
  assume h: "f_trace (frames w frame) \<noteq> NULL" and s: "stop_here env w frame = (rc, w2)"
    and r: "rc \<noteq> -1" "rc \<noteq> 0"
    and u: "user_method env w2 frame ''user_line'' NULL = (NULL, w3)"
  show "tracer env w frame PyTrace_LINE arg = tracer_fail w3 frame"
    by (rule tracer_fails [OF _ dispatch_line_handler_fails [OF s r u]]) (simp_all add: h)
next
  assume h: "f_trace (frames w frame) \<noteq> NULL" and s: "stop_here env w frame = (0, w2)"
    and b: "bkpt_at_line env w2 frame = (NULL, w3)"
  show "tracer env w frame PyTrace_LINE arg = tracer_fail w3 frame"
    by (rule tracer_fails [OF _ dispatch_line_lookup_fails [OF s b]]) (simp_all add: h)
next
  assume h: "f_trace (frames w frame) \<noteq> NULL" and s: "stop_here env w frame = (rc, w2)"
    and r: "rc \<noteq> -1" "rc \<noteq> 0 \<or> PyFrame frame = stopframe (bdb w2)"
    and u: "user_method env w2 frame ''user_return'' (if arg = NULL then Py_None else arg) =
      (NULL, w3)"
  show "tracer env w frame PyTrace_RETURN arg = tracer_fail w3 frame"
    by (rule tracer_fails [OF _ dispatch_return_handler_fails [OF s r u]]) (simp_all add: h)
next
  assume h: "f_trace (frames w frame) \<noteq> NULL" and s: "stop_here env w frame = (rc, w2)"
    and r: "rc \<noteq> -1" "rc \<noteq> 0"
    and u: "user_method env w2 frame ''user_exception''
              (if arg = NULL then Py_None else arg) = (NULL, w3)"
  show "tracer env w frame PyTrace_EXCEPTION arg = tracer_fail w3 frame"
    by (rule tracer_fails [OF _ dispatch_exception_handler_fails [OF s r u]])
       (simp_all add: h)
next
  assume i: "ignore_first_call_event (bdb w) = 0"
    and k: "PySequence_Contains (skip_calls (bdb w)) (PyCode (f_code (frames w frame))) = 0"
    and s: "stop_here env w frame = (rc, w2)"
    and b: "rc = -1 \<and> w3 = w2 \<or> rc \<noteq> -1 \<and> bkpt_in_code env w2 frame = (NULL, w3)"
  show "tracer env w frame PyTrace_CALL arg = tracer_fail w3 frame"
    by (rule tracer_fails [OF _ dispatch_call_fails [OF i k s b]]) simp_all
qed


text \<open>
  Two runs: a LINE event on frame 1 while \<open>stop_lineno\<close> holds a string, and a LINE
  event on frame 1 whose handler \<open>get_traceobj\<close> raises.
\<close>

theorem tracer_failure_witness:
  "tracer (demo_env Py_False PyBdbTracer)
      (demo_world\<lparr>bdb := demo_bdb\<lparr>stop_lineno := PyUnicode ''junk''\<rparr>\<rparr>) 1 PyTrace_LINE NULL =
     (-1, demo_world\<lparr>bdb := demo_bdb\<lparr>stop_lineno := PyUnicode ''junk''\<rparr>,
                     tracebacks := [1], c_traceobj := NULL,
                     frames := (frames demo_world)
                        (1 := (frames demo_world 1)\<lparr>f_trace := NULL\<rparr>)\<rparr>) \<and>
   tracer (demo_env Py_False NULL) demo_world 1 PyTrace_LINE NULL =
     (-1, demo_world\<lparr>tracebacks := [1], c_traceobj := NULL,
                     frames := (frames demo_world)
                        (1 := (frames demo_world 1)\<lparr>f_trace := NULL\<rparr>)\<rparr>)"
proof -
  let ?junk = "demo_world\<lparr>bdb := demo_bdb\<lparr>stop_lineno := PyUnicode ''junk''\<rparr>\<rparr>"
  have hook: "f_trace (frames ?junk 1) \<noteq> NULL" "f_trace (frames demo_world 1) \<noteq> NULL"
    by (simp_all add: demo_world_def)
  have decode: "stop_here (demo_env Py_False PyBdbTracer) ?junk 1 = (-1, ?junk)"
    by (simp add: demo_run)
  have stop: "stop_here (demo_env Py_False NULL) demo_world 1 = (1, demo_world)"
    by (simp add: demo_run)
  have handler: "user_method (demo_env Py_False NULL) demo_world 1 ''user_line'' NULL =
      (NULL, demo_world)"
    by (simp add: demo_run)
  note a = tracer_failure
      [where env = "demo_env Py_False PyBdbTracer" and w = ?junk and frame = 1
         and what = PyTrace_LINE and arg = NULL and ?w2.0 = ?junk,
       THEN conjunct2, THEN conjunct2, THEN conjunct2, THEN conjunct2, THEN conjunct1]
  note b = tracer_failure
      [where env = "demo_env Py_False NULL" and w = demo_world and frame = 1
         and what = PyTrace_LINE and arg = NULL and ?w2.0 = demo_world and rc = 1
         and ?w3.0 = demo_world,
       THEN conjunct2, THEN conjunct2, THEN conjunct2, THEN conjunct2, THEN conjunct2,
       THEN conjunct1]
  have "tracer (demo_env Py_False PyBdbTracer) ?junk 1 PyTrace_LINE NULL = tracer_fail ?junk 1"
    using hook(1) decode by (intro a [THEN mp]) simp
  moreover have "tracer (demo_env Py_False NULL) demo_world 1 PyTrace_LINE NULL =
      tracer_fail demo_world 1"
    using hook(2) stop handler by (intro b [THEN mp]) simp
  ultimately show ?thesis
    by (simp add: tracer_fail_def demo_world_def)
qed

subsection \<open>tracer: every raise that the code tests for\<close>

text \<open>
  The functions of the module, each on the function of the C API whose failure it
  tests: \<open>user_method\<close> on the two calls of interpreted code, \<open>stop_here\<close> on the call of
  \<open>is_skipped_module\<close> and on \<open>PyLong_AsLong\<close>, \<open>bkpt_at_line\<close> on \<open>PyDict_Contains\<close>,
  \<open>bkpt_in_code\<close> on \<open>lower\<close> and \<open>PyDict_SetItem\<close>.
\<close>

lemma user_method_steps:
  "user_method env w frame name arg =
     (let (result, w1) =
            PyObject_CallMethod env (handler_entry w frame) name (handler_args name frame arg) in
      if result = NULL then (NULL, w1)
      else PyObject_CallMethod env (handler_exit w1) ''get_traceobj'' [])"
  unfolding user_method_def handler_entry_def handler_args_def handler_exit_def Let_def
  by (simp split: if_splits)

lemma user_method_raises:
  assumes "PyObject_CallMethod env (handler_entry w frame) name (handler_args name frame arg) =
             (r, w1)"
    and "r = NULL \<and> w2 = w1 \<or>
         r \<noteq> NULL \<and> PyObject_CallMethod env (handler_exit w1) ''get_traceobj'' [] = (NULL, w2)"
  shows "user_method env w frame name arg = (NULL, w2)"
  using assms by (auto simp: user_method_steps)

lemma stop_here_skip_raises:
  assumes "skip_modules (bdb w) \<noteq> []"
    and "PyObject_CallMethod env w ''is_skipped_module'' [PyFrame frame] = (NULL, w1)"
  shows "stop_here env w frame = (-1, w1)"
  using assms by (simp add: stop_here_def PyTuple_GET_SIZE_def)

lemma stop_here_decode_raises:
  assumes "skip_modules (bdb w) = [] \<and> w1 = w \<or>
           skip_modules (bdb w) \<noteq> [] \<and>
           PyObject_CallMethod env w ''is_skipped_module'' [PyFrame frame] = (result, w1) \<and>
           result \<noteq> NULL \<and> PyObject_IsTrue (dicts w1) result = 0"
    and "PyLong_AsLong (stop_lineno (bdb w1)) = None"
  shows "stop_here env w frame = (-1, w1)"
  unfolding stop_here_not_skipped [OF assms(1)]
  using assms(2) by (simp add: stop_here_lineno_def)

lemma bkpt_line_check_raises:
  assumes "f_lineno (frames w frame) < PyList_GET_SIZE (linenumbers (bdb w))"
    and "PyList_GET_ITEM (linenumbers (bdb w)) (f_lineno (frames w frame)) \<noteq> Py_None"
    and "PyDict_Contains (dicts w) (code_bps (bdb w))
           (PyList_GET_ITEM (linenumbers (bdb w)) (f_lineno (frames w frame))) = -1"
  shows "bkpt_line_check w frame mbps = NULL"
  using assms by (simp add: bkpt_line_check_def Let_def)

lemma bkpt_at_line_raises:
  assumes "Some (f_code (frames w frame)) = cur_f_code (bdb w) \<and> w1 = w \<or>
           Some (f_code (frames w frame)) \<noteq> cur_f_code (bdb w) \<and>
           bkpt_in_code env w frame = (mbps, w1) \<and> mbps \<noteq> Py_None"
    and "f_lineno (frames w1 frame) < PyList_GET_SIZE (linenumbers (bdb w1))"
    and "PyList_GET_ITEM (linenumbers (bdb w1)) (f_lineno (frames w1 frame)) \<noteq> Py_None"
    and "PyDict_Contains (dicts w1) (code_bps (bdb w1))
           (PyList_GET_ITEM (linenumbers (bdb w1)) (f_lineno (frames w1 frame))) = -1"
  shows "bkpt_at_line env w frame = (NULL, w1)"
  using assms(1) bkpt_line_check_raises [OF assms(2-4)]
  by (auto simp: bkpt_at_line_def)

lemma bkpt_in_code_raises:
  assumes "lcfilename_cache (bdb w) \<noteq> NULL"
    and "PyDict_GetItem (dicts w) (lcfilename_cache (bdb w))
           (co_filename (codes env (f_code (frames w frame)))) = NULL"
    and "str_lower env (co_filename (codes env (f_code (frames w frame)))) = NULL \<or>
         fst (PyDict_SetItem (dicts w) (lcfilename_cache (bdb w))
                (co_filename (codes env (f_code (frames w frame))))
                (str_lower env (co_filename (codes env (f_code (frames w frame)))))) \<noteq> 0"
  shows "bkpt_in_code env w frame = (NULL, w)"
  using assms by (auto simp: bkpt_in_code_def Let_def split: prod.splits)

lemma dispatch_bkpt_handler_fails:
  assumes "stop_here env w frame = (0, w1)"
    and "bkpt_at_line env w1 frame = (mbps, w2)" and "mbps \<noteq> NULL" and "mbps \<noteq> Py_None"
    and "user_method env w2 frame ''bkpt_user_line'' mbps = (NULL, w3)"
  shows "tracer_dispatch env w frame PyTrace_LINE arg = (GotoFin NULL, w3)"
  using assms by (simp add: tracer_dispatch_def tracer_line_def)

lemma dispatch_call_skip_raises:
  assumes "ignore_first_call_event (bdb w) = 0"
    and "PySequence_Contains (skip_calls (bdb w)) (PyCode (f_code (frames w frame))) = -1"
  shows "tracer_dispatch env w frame PyTrace_CALL arg = (GotoFail, w)"
  using assms by (simp add: tracer_dispatch_def tracer_call_def)

lemma dispatch_call_handler_fails:
  assumes "ignore_first_call_event (bdb w) = 0"
    and "PySequence_Contains (skip_calls (bdb w)) (PyCode (f_code (frames w frame))) = 0"
    and "stop_here env w frame = (rc, w1)" and "rc \<noteq> -1" and "rc \<noteq> 0"
    and "bkpt_in_code env w1 frame = (r, w2)" and "r \<noteq> NULL"
    and "user_method env w2 frame ''user_call'' arg = (NULL, w3)"
  shows "tracer_dispatch env w frame PyTrace_CALL arg = (GotoFin NULL, w3)"
  using assms by (simp add: tracer_dispatch_def tracer_call_def)

lemma dispatch_return_decode_fails:
  assumes "stop_here env w frame = (rc, w1)" and "rc \<noteq> -1"
    and "rc \<noteq> 0 \<or> PyFrame frame = stopframe (bdb w1)"
    and "user_method env w1 frame ''user_return'' arg = (r, w2)"
    and "r \<noteq> NULL" and "r \<noteq> Py_None"
    and "PyLong_AsLong (stop_lineno (bdb w2)) = None"
  shows "tracer_dispatch env w frame PyTrace_RETURN arg = (GotoFail, w2)"
  using assms by (auto simp: tracer_dispatch_def tracer_return_def tracer_return_stop_def)

lemma dispatch_stop_tracing_raises:
  assumes "stop_here env w frame = (rc, w1)" and "rc \<noteq> -1"
    and "(if rc \<noteq> 0 \<or> PyFrame frame = stopframe (bdb w1)
          then tracer_return_stop env w1 frame arg else (Next, w1)) = (Next, w2)"
    and "PyFrame frame = botframe (bdb w2)"
    and "PyObject_CallMethod env w2 ''stop_tracing'' [PyFrame frame] = (NULL, w3)"
  shows "tracer_dispatch env w frame PyTrace_RETURN arg = (GotoFail, w3)"
  using assms by (simp add: tracer_dispatch_def tracer_return_def)


text \<open>
  The same for \<open>tracer\<close>, event by event: the hypotheses name the call that raises,
  and the conclusion is the label \<open>fail\<close> on the state that call left. They cover
  \<open>is_skipped_module\<close>, the decoding of \<open>stop_lineno\<close> before and after \<open>user_return\<close>,
  \<open>PyDict_Contains\<close>, \<open>PySequence_Contains\<close>, \<open>lower\<close> and \<open>PyDict_SetItem\<close>, the five
  handlers with \<open>get_traceobj\<close>, and \<open>stop_tracing\<close>.
\<close>

lemma tracer_skip_predicate_raises:
  assumes "(what = PyTrace_LINE \<or> what = PyTrace_RETURN \<or> what = PyTrace_EXCEPTION) \<and>
           f_trace (frames w frame) \<noteq> NULL \<or>
           what = PyTrace_CALL \<and> ignore_first_call_event (bdb w) = 0 \<and>
           PySequence_Contains (skip_calls (bdb w)) (PyCode (f_code (frames w frame))) = 0"
    and "skip_modules (bdb w) \<noteq> []"
    and "PyObject_CallMethod env w ''is_skipped_module'' [PyFrame frame] = (NULL, w1)"
  shows "tracer env w frame what arg = tracer_fail w1 frame"
proof -
  have s: "stop_here env w frame = (-1, w1)"
    by (rule stop_here_skip_raises [OF assms(2,3)])
  from assms(1) show ?thesis
  proof (elim disjE conjE)
    assume c: "what = PyTrace_CALL" "ignore_first_call_event (bdb w) = 0"
      "PySequence_Contains (skip_calls (bdb w)) (PyCode (f_code (frames w frame))) = 0"
    show ?thesis
      unfolding c(1)
      by (rule tracer_fails [OF _ dispatch_call_fails [OF c(2,3) s]]) simp_all
  qed (rule tracer_fails [OF _ dispatch_stop_here_fails [OF _ s]]; simp)+
qed

lemma tracer_decode_raises:
  assumes "(what = PyTrace_LINE \<or> what = PyTrace_RETURN \<or> what = PyTrace_EXCEPTION) \<and>
           f_trace (frames w frame) \<noteq> NULL \<or>
           what = PyTrace_CALL \<and> ignore_first_call_event (bdb w) = 0 \<and>
           PySequence_Contains (skip_calls (bdb w)) (PyCode (f_code (frames w frame))) = 0"
    and "skip_modules (bdb w) = [] \<and> w1 = w \<or>
         skip_modules (bdb w) \<noteq> [] \<and>
         PyObject_CallMethod env w ''is_skipped_module'' [PyFrame frame] = (result, w1) \<and>
         result \<noteq> NULL \<and> PyObject_IsTrue (dicts w1) result = 0"
    and "PyLong_AsLong (stop_lineno (bdb w1)) = None"
  shows "tracer env w frame what arg = tracer_fail w1 frame"
proof -
  have s: "stop_here env w frame = (-1, w1)"
    by (rule stop_here_decode_raises [OF assms(2,3)])
  from assms(1) show ?thesis
  proof (elim disjE conjE)
    assume c: "what = PyTrace_CALL" "ignore_first_call_event (bdb w) = 0"
      "PySequence_Contains (skip_calls (bdb w)) (PyCode (f_code (frames w frame))) = 0"
    show ?thesis
      unfolding c(1)
      by (rule tracer_fails [OF _ dispatch_call_fails [OF c(2,3) s]]) simp_all
  qed (rule tracer_fails [OF _ dispatch_stop_here_fails [OF _ s]]; simp)+
qed

lemma tracer_line_contains_raises:
  assumes "f_trace (frames w frame) \<noteq> NULL"
    and "stop_here env w frame = (0, w1)"
    and "Some (f_code (frames w1 frame)) = cur_f_code (bdb w1) \<and> w2 = w1 \<or>
         Some (f_code (frames w1 frame)) \<noteq> cur_f_code (bdb w1) \<and>
         bkpt_in_code env w1 frame = (mbps, w2) \<and> mbps \<noteq> Py_None"
    and "f_lineno (frames w2 frame) < PyList_GET_SIZE (linenumbers (bdb w2))"
    and "PyList_GET_ITEM (linenumbers (bdb w2)) (f_lineno (frames w2 frame)) \<noteq> Py_None"
    and "PyDict_Contains (dicts w2) (code_bps (bdb w2))
           (PyList_GET_ITEM (linenumbers (bdb w2)) (f_lineno (frames w2 frame))) = -1"
  shows "tracer env w frame PyTrace_LINE arg = tracer_fail w2 frame"
  by (rule tracer_fails
        [OF _ dispatch_line_lookup_fails [OF assms(2) bkpt_at_line_raises [OF assms(3-6)]]])
     (simp_all add: assms(1))

lemma tracer_line_handler_raises:
  assumes "f_trace (frames w frame) \<noteq> NULL"
    and "stop_here env w frame = (rc, w1)" and "rc \<noteq> -1" and "rc \<noteq> 0"
    and "PyObject_CallMethod env (handler_entry w1 frame) ''user_line''
           (handler_args ''user_line'' frame NULL) = (r, w2)"
    and "r = NULL \<and> w3 = w2 \<or>
         r \<noteq> NULL \<and> PyObject_CallMethod env (handler_exit w2) ''get_traceobj'' [] = (NULL, w3)"
  shows "tracer env w frame PyTrace_LINE arg = tracer_fail w3 frame"
  by (rule tracer_fails
        [OF _ dispatch_line_handler_fails [OF assms(2-4) user_method_raises [OF assms(5,6)]]])
     (simp_all add: assms(1))

lemma tracer_bkpt_handler_raises:
  assumes "f_trace (frames w frame) \<noteq> NULL"
    and "stop_here env w frame = (0, w1)"
    and "bkpt_at_line env w1 frame = (mbps, w2)" and "mbps \<noteq> NULL" and "mbps \<noteq> Py_None"
    and "PyObject_CallMethod env (handler_entry w2 frame) ''bkpt_user_line''
           (handler_args ''bkpt_user_line'' frame mbps) = (r, w3)"
    and "r = NULL \<and> w4 = w3 \<or>
         r \<noteq> NULL \<and> PyObject_CallMethod env (handler_exit w3) ''get_traceobj'' [] = (NULL, w4)"
  shows "tracer env w frame PyTrace_LINE arg = tracer_fail w4 frame"
  by (rule tracer_fails
        [OF _ dispatch_bkpt_handler_fails [OF assms(2-5) user_method_raises [OF assms(6,7)]]])
     (simp_all add: assms(1))

lemma tracer_exception_handler_raises:
  assumes "f_trace (frames w frame) \<noteq> NULL"
    and "stop_here env w frame = (rc, w1)" and "rc \<noteq> -1" and "rc \<noteq> 0"
    and "PyObject_CallMethod env (handler_entry w1 frame) ''user_exception''
           (handler_args ''user_exception'' frame (if arg = NULL then Py_None else arg)) =
           (r, w2)"
    and "r = NULL \<and> w3 = w2 \<or>
         r \<noteq> NULL \<and> PyObject_CallMethod env (handler_exit w2) ''get_traceobj'' [] = (NULL, w3)"
  shows "tracer env w frame PyTrace_EXCEPTION arg = tracer_fail w3 frame"
  by (rule tracer_fails
        [OF _ dispatch_exception_handler_fails
                [OF assms(2-4) user_method_raises [OF assms(5,6)]]])
     (simp_all add: assms(1))

lemma tracer_call_skip_raises:
  assumes "ignore_first_call_event (bdb w) = 0"
    and "PySequence_Contains (skip_calls (bdb w)) (PyCode (f_code (frames w frame))) = -1"
  shows "tracer env w frame PyTrace_CALL arg = tracer_fail w frame"
  by (rule tracer_fails [OF _ dispatch_call_skip_raises [OF assms]]) simp_all

lemma tracer_call_lookup_raises:
  assumes "ignore_first_call_event (bdb w) = 0"
    and "PySequence_Contains (skip_calls (bdb w)) (PyCode (f_code (frames w frame))) = 0"
    and "stop_here env w frame = (rc, w1)" and "rc \<noteq> -1"
    and "lcfilename_cache (bdb w1) \<noteq> NULL"
    and "PyDict_GetItem (dicts w1) (lcfilename_cache (bdb w1))
           (co_filename (codes env (f_code (frames w1 frame)))) = NULL"
    and "str_lower env (co_filename (codes env (f_code (frames w1 frame)))) = NULL \<or>
         fst (PyDict_SetItem (dicts w1) (lcfilename_cache (bdb w1))
                (co_filename (codes env (f_code (frames w1 frame))))
                (str_lower env (co_filename (codes env (f_code (frames w1 frame)))))) \<noteq> 0"
  shows "tracer env w frame PyTrace_CALL arg = tracer_fail w1 frame"
proof -
  have b: "rc = -1 \<and> w1 = w1 \<or> rc \<noteq> -1 \<and> bkpt_in_code env w1 frame = (NULL, w1)"
    using assms(4) bkpt_in_code_raises [OF assms(5-7)] by simp
  show ?thesis
    by (rule tracer_fails [OF _ dispatch_call_fails [OF assms(1-3) b]]) simp_all
qed

lemma tracer_call_handler_raises:
  assumes "ignore_first_call_event (bdb w) = 0"
    and "PySequence_Contains (skip_calls (bdb w)) (PyCode (f_code (frames w frame))) = 0"
    and "stop_here env w frame = (rc, w1)" and "rc \<noteq> -1" and "rc \<noteq> 0"
    and "bkpt_in_code env w1 frame = (b, w2)" and "b \<noteq> NULL"
    and "PyObject_CallMethod env (handler_entry w2 frame) ''user_call''
           (handler_args ''user_call'' frame (if arg = NULL then Py_None else arg)) = (r, w3)"
    and "r = NULL \<and> w4 = w3 \<or>
         r \<noteq> NULL \<and> PyObject_CallMethod env (handler_exit w3) ''get_traceobj'' [] = (NULL, w4)"
  shows "tracer env w frame PyTrace_CALL arg = tracer_fail w4 frame"
  by (rule tracer_fails
        [OF _ dispatch_call_handler_fails
                [OF assms(1-7) user_method_raises [OF assms(8,9)]]])
     simp_all

lemma tracer_return_handler_raises:
  assumes "f_trace (frames w frame) \<noteq> NULL"
    and "stop_here env w frame = (rc, w1)" and "rc \<noteq> -1"
    and "rc \<noteq> 0 \<or> PyFrame frame = stopframe (bdb w1)"
    and "PyObject_CallMethod env (handler_entry w1 frame) ''user_return''
           (handler_args ''user_return'' frame (if arg = NULL then Py_None else arg)) = (r, w2)"
    and "r = NULL \<and> w3 = w2 \<or>
         r \<noteq> NULL \<and> PyObject_CallMethod env (handler_exit w2) ''get_traceobj'' [] = (NULL, w3)"
  shows "tracer env w frame PyTrace_RETURN arg = tracer_fail w3 frame"
  by (rule tracer_fails
        [OF _ dispatch_return_handler_fails
                [OF assms(2-4) user_method_raises [OF assms(5,6)]]])
     (simp_all add: assms(1))

lemma tracer_return_decode_raises:
  assumes "f_trace (frames w frame) \<noteq> NULL"
    and "stop_here env w frame = (rc, w1)" and "rc \<noteq> -1"
    and "rc \<noteq> 0 \<or> PyFrame frame = stopframe (bdb w1)"
    and "user_method env w1 frame ''user_return'' (if arg = NULL then Py_None else arg) =
           (r, w2)"
    and "r \<noteq> NULL" and "r \<noteq> Py_None"
    and "PyLong_AsLong (stop_lineno (bdb w2)) = None"
  shows "tracer env w frame PyTrace_RETURN arg = tracer_fail w2 frame"
  by (rule tracer_fails [OF _ dispatch_return_decode_fails [OF assms(2-8)]])
     (simp_all add: assms(1))

lemma tracer_stop_tracing_raises:
  assumes "f_trace (frames w frame) \<noteq> NULL"
    and "stop_here env w frame = (rc, w1)" and "rc \<noteq> -1"
    and "(if rc \<noteq> 0 \<or> PyFrame frame = stopframe (bdb w1)
          then tracer_return_stop env w1 frame (if arg = NULL then Py_None else arg)
          else (Next, w1)) = (Next, w2)"
    and "PyFrame frame = botframe (bdb w2)"
    and "PyObject_CallMethod env w2 ''stop_tracing'' [PyFrame frame] = (NULL, w3)"
  shows "tracer env w frame PyTrace_RETURN arg = tracer_fail w3 frame"
  by (rule tracer_fails [OF _ dispatch_stop_tracing_raises [OF assms(2-6)]])
     (simp_all add: assms(1))

text \<open>
  Five of them on the small session: \<open>stop_tracing\<close> raises at the bottom frame;
  \<open>user_call\<close> raises; \<open>bkpt_user_line\<close> raises; the entry of \<open>linenumbers\<close> for line 10
  cannot be hashed; an element of \<open>skip_calls\<close> cannot be compared.
\<close>

theorem tracer_fail_paths_demo:
  "tracer (demo_failing ''stop_tracing'')
      (demo_world\<lparr>bdb := demo_bdb\<lparr>botframe := PyFrame 1\<rparr>\<rparr>) 1 PyTrace_RETURN (PyLong 5) =
     tracer_fail (demo_world\<lparr>bdb := demo_bdb\<lparr>botframe := PyFrame 1\<rparr>\<rparr>) 1 \<and>
   tracer (demo_failing ''user_call'') demo_world 1 PyTrace_CALL NULL =
     tracer_fail (demo_cached\<lparr>bdb := bdb demo_cached\<lparr>topframe := PyFrame 1\<rparr>\<rparr>) 1 \<and>
   tracer (demo_failing ''bkpt_user_line'')
      (demo_world\<lparr>bdb := demo_bdb\<lparr>stopframe := PyFrame 2\<rparr>\<rparr>) 1 PyTrace_LINE NULL =
     tracer_fail (demo_cached\<lparr>bdb := bdb demo_cached
                     \<lparr>stopframe := PyFrame 2, topframe := PyFrame 1\<rparr>\<rparr>) 1 \<and>
   tracer (demo_env Py_False PyBdbTracer)
      (demo_world\<lparr>bdb := demo_bdb\<lparr>stopframe := PyFrame 2,
                                   linenumbers := (linenumbers demo_bdb)[10 := PyRaising 5]\<rparr>\<rparr>)
      1 PyTrace_LINE NULL =
     tracer_fail
      (demo_cached\<lparr>bdb := bdb demo_cached
          \<lparr>stopframe := PyFrame 2,
             linenumbers := (linenumbers demo_bdb)[10 := PyRaising 5]\<rparr>\<rparr>) 1 \<and>
   tracer (demo_env Py_False PyBdbTracer)
      (demo_world\<lparr>bdb := demo_bdb\<lparr>skip_calls := [PyRaising 5]\<rparr>\<rparr>) 1 PyTrace_CALL NULL =
     tracer_fail (demo_world\<lparr>bdb := demo_bdb\<lparr>skip_calls := [PyRaising 5]\<rparr>\<rparr>) 1"
  by (simp add: demo_run demo_failing_def)

subsection \<open>tracer: the raise that the code does not test for\<close>

text \<open>
  Line 174 tests the result of \<open>PyObject_IsTrue\<close> for being other than 0. When the truth
  test raises the result is -1, and \<open>stop_here\<close> returns 0, as for a skipped module, with
  the exception pending; an EXCEPTION event then goes on to the end of the chain and
  installs the tracer on the frame.
\<close>

lemma stop_here_truth_test_raises:
  assumes "skip_modules (bdb w) \<noteq> []"
    and "PyObject_CallMethod env w ''is_skipped_module'' [PyFrame frame] = (result, w1)"
    and "result \<noteq> NULL" and "PyObject_IsTrue (dicts w1) result = -1"
  shows "stop_here env w frame = (0, w1)"
  using assms by (simp add: stop_here_def PyTuple_GET_SIZE_def)

lemma tracer_truth_test_raises:
  assumes "f_trace (frames w frame) \<noteq> NULL"
    and "skip_modules (bdb w) \<noteq> []"
    and "PyObject_CallMethod env w ''is_skipped_module'' [PyFrame frame] = (result, w1)"
    and "result \<noteq> NULL" and "PyObject_IsTrue (dicts w1) result = -1"
  shows "tracer env w frame PyTrace_EXCEPTION arg =
           (0, w1\<lparr>frames := (frames w1)(frame := (frames w1 frame)\<lparr>f_trace := PyBdbTracer\<rparr>)\<rparr>)"
  using assms(1) stop_here_truth_test_raises [OF assms(2-5)]
  by (simp add: tracer_def tracer_dispatch_def tracer_exception_def tracer_fin_def)

text \<open>
  C8 fails on this path: an event whose dispatch raises is not always taken to the label
  \<open>fail\<close>. In the small session with \<open>skip_modules\<close> not empty, \<open>is_skipped_module\<close>
  answers with an object whose truth test raises. On a LINE event on frame 1,
  \<open>PyObject_IsTrue\<close> returns -1, \<open>stop_here\<close> returns 0, and \<open>tracer\<close> continues: it
  resolves the breakpoints of the frame (the cache is filled), finds the breakpoint at
  line 10, calls \<open>bkpt_user_line\<close> and \<open>get_traceobj\<close>, and returns 0. The frame is not
  added to the traceback, the trace function of the interpreter is still installed, and
  the frame keeps its trace function.
\<close>

theorem tracer_truth_test_swallowed:
  "PyObject_CallMethod (demo_env (PyRaising 9) PyBdbTracer)
      (demo_world\<lparr>bdb := demo_bdb\<lparr>skip_modules := [PyUnicode ''os'']\<rparr>\<rparr>)
      ''is_skipped_module'' [PyFrame 1] =
     (PyRaising 9, demo_world\<lparr>bdb := demo_bdb\<lparr>skip_modules := [PyUnicode ''os'']\<rparr>\<rparr>) \<and>
   PyObject_IsTrue (dicts demo_world) (PyRaising 9) = -1 \<and>
   stop_here (demo_env (PyRaising 9) PyBdbTracer)
      (demo_world\<lparr>bdb := demo_bdb\<lparr>skip_modules := [PyUnicode ''os'']\<rparr>\<rparr>) 1 =
     (0, demo_world\<lparr>bdb := demo_bdb\<lparr>skip_modules := [PyUnicode ''os'']\<rparr>\<rparr>) \<and>
   fst (user_method (demo_env (PyRaising 9) PyBdbTracer)
          (demo_cached\<lparr>bdb := bdb demo_cached\<lparr>skip_modules := [PyUnicode ''os'']\<rparr>\<rparr>) 1
          ''bkpt_user_line'' (PyDict 101)) = PyBdbTracer \<and>
   tracer (demo_env (PyRaising 9) PyBdbTracer)
      (demo_world\<lparr>bdb := demo_bdb\<lparr>skip_modules := [PyUnicode ''os'']\<rparr>\<rparr>) 1 PyTrace_LINE NULL =
     (0, demo_cached\<lparr>bdb := bdb demo_cached\<lparr>skip_modules := [PyUnicode ''os'']\<rparr>\<rparr>) \<and>
   tracebacks (demo_cached\<lparr>bdb := bdb demo_cached\<lparr>skip_modules := [PyUnicode ''os'']\<rparr>\<rparr>) = [] \<and>
   c_traceobj (demo_cached\<lparr>bdb := bdb demo_cached\<lparr>skip_modules := [PyUnicode ''os'']\<rparr>\<rparr>) =
     PyBdbTracer \<and>
   f_trace (frames (demo_cached\<lparr>bdb := bdb demo_cached\<lparr>skip_modules := [PyUnicode ''os'']\<rparr>\<rparr>) 1) =
     PyBdbTracer"
  by (simp add: demo_run fun_eq_iff)

subsection \<open>tracer: the RETURN event\<close>

text \<open>
  C7, as the code has it. Take a RETURN event on a frame \<open>F\<close> that has a trace function,
  where \<open>stop_here\<close> returns 1 and the handler (\<open>user_return\<close>, then \<open>get_traceobj\<close>)
  returns an object other than \<open>None\<close>. If, when the handler returns, \<open>stopframe\<close> is
  \<open>F\<close>, \<open>F\<close> is not \<open>botframe\<close> and \<open>stop_lineno\<close> decodes, then after the event
  \<open>stopframe\<close> is \<open>None\<close> and \<open>stop_lineno\<close> is 0, \<open>F\<close> has the tracer as its trace
  function, and the caller of \<open>F\<close>, if there is one, has got the tracer as its trace
  function when it had none and is unchanged when it had one.
\<close>

theorem tracer_return_propagates:
  assumes hook: "f_trace (frames w F) \<noteq> NULL"
    and stop: "stop_here env w F = (1, w1)"
    and handler: "user_method env w1 F ''user_return'' (if arg = NULL then Py_None else arg) =
                    (result, w2)"
    and res: "result \<noteq> NULL" "result \<noteq> Py_None"
    and target: "stopframe (bdb w2) = PyFrame F"
    and notbot: "botframe (bdb w2) \<noteq> PyFrame F"
    and decode: "PyLong_AsLong (stop_lineno (bdb w2)) \<noteq> None"
    and caller: "f_back (frames w2 F) \<noteq> Some F"
  shows "\<exists>w3. tracer env w F PyTrace_RETURN arg = (0, w3) \<and>
           stopframe (bdb w3) = Py_None \<and> stop_lineno (bdb w3) = PyLong 0 \<and>
           f_trace (frames w3 F) = PyBdbTracer \<and>
           (\<forall>b. f_back (frames w2 F) = Some b \<longrightarrow>
                (f_trace (frames w2 b) = NULL \<longrightarrow> f_trace (frames w3 b) = PyBdbTracer) \<and>
                (f_trace (frames w2 b) \<noteq> NULL \<longrightarrow> frames w3 b = frames w2 b))"
proof -
  define arg' where "arg' = (if arg = NULL then Py_None else arg)"
  define w3 where "w3 = propagate_to_caller env w2 F"
  have rs: "tracer_return_stop env w1 F arg' = (Next, w3)"
    using handler res target notbot decode
    by (auto simp: tracer_return_stop_def arg'_def w3_def split: option.splits)
  have bot3: "botframe (bdb w3) \<noteq> PyFrame F"
    using notbot by (simp add: w3_def propagate_to_caller_def Let_def split: option.splits)
  have "tracer_return env w F arg' = (Next, w3)"
    using stop rs bot3 by (simp add: tracer_return_def)
  then have d: "tracer_dispatch env w F PyTrace_RETURN arg' = (Next, w3)"
    by (simp add: tracer_dispatch_def)
  have t: "tracer env w F PyTrace_RETURN arg =
      (0, w3\<lparr>frames := (frames w3)(F := (frames w3 F)\<lparr>f_trace := PyBdbTracer\<rparr>)\<rparr>)"
    using tracer_dispatched [of PyTrace_RETURN w F env arg Next w3] hook d
    by (simp add: arg'_def tracer_fin_def)
  have p: "stopframe (bdb w3) = Py_None" "stop_lineno (bdb w3) = PyLong 0"
    by (simp_all add: w3_def propagate_to_caller_def Let_def split: option.splits)
  have c: "\<forall>b. f_back (frames w2 F) = Some b \<longrightarrow>
                (f_trace (frames w2 b) = NULL \<longrightarrow> f_trace (frames w3 b) = PyBdbTracer) \<and>
                (f_trace (frames w2 b) \<noteq> NULL \<longrightarrow> frames w3 b = frames w2 b)"
    by (simp add: w3_def propagate_to_caller_def Let_def)
  show ?thesis
    using t p c caller by auto
qed

text \<open>
  The witness: frame 1 is the step target and returns; its caller, frame 2, has no trace
  function and gets the tracer. In the second run the caller is frame 1 (the returning
  frame is 3), which has a trace function of its own and keeps it.
\<close>

theorem tracer_return_propagates_witness:
  "stopframe (bdb (snd (tracer (demo_env Py_False PyBdbTracer)
       (demo_world\<lparr>bdb := demo_bdb\<lparr>stopframe := PyFrame 1\<rparr>\<rparr>)
       1 PyTrace_RETURN (PyLong 5)))) = Py_None \<and>
   f_trace (frames (snd (tracer (demo_env Py_False PyBdbTracer)
       (demo_world\<lparr>bdb := demo_bdb\<lparr>stopframe := PyFrame 1\<rparr>\<rparr>)
       1 PyTrace_RETURN (PyLong 5))) 2) = PyBdbTracer \<and>
   f_trace (frames (snd (tracer (demo_env Py_False PyBdbTracer)
       (demo_world\<lparr>bdb := demo_bdb\<lparr>stopframe := PyFrame 3\<rparr>,
                   frames := (frames demo_world)
                               (1 := (frames demo_world 1)\<lparr>f_trace := PyOther 9\<rparr>)\<rparr>)
       3 PyTrace_RETURN (PyLong 5))) 1) = PyOther 9"
  using tracer_return_propagates
          [of "demo_world\<lparr>bdb := demo_bdb\<lparr>stopframe := PyFrame 1\<rparr>\<rparr>" 1
              "demo_env Py_False PyBdbTracer"
              "demo_world\<lparr>bdb := demo_bdb\<lparr>stopframe := PyFrame 1\<rparr>\<rparr>"
              "PyLong 5" PyBdbTracer
              "demo_world\<lparr>bdb := demo_bdb\<lparr>stopframe := PyFrame 1\<rparr>\<rparr>"]
        tracer_return_propagates
          [of "demo_world\<lparr>bdb := demo_bdb\<lparr>stopframe := PyFrame 3\<rparr>,
                   frames := (frames demo_world)
                               (1 := (frames demo_world 1)\<lparr>f_trace := PyOther 9\<rparr>)\<rparr>" 3
              "demo_env Py_False PyBdbTracer"
              "demo_world\<lparr>bdb := demo_bdb\<lparr>stopframe := PyFrame 3\<rparr>,
                   frames := (frames demo_world)
                               (1 := (frames demo_world 1)\<lparr>f_trace := PyOther 9\<rparr>)\<rparr>"
              "PyLong 5" PyBdbTracer
              "demo_world\<lparr>bdb := demo_bdb\<lparr>stopframe := PyFrame 3\<rparr>,
                   frames := (frames demo_world)
                               (1 := (frames demo_world 1)\<lparr>f_trace := PyOther 9\<rparr>)\<rparr>"]
  by (simp add: stop_here_def stop_here_lineno_def user_method_def PyObject_CallMethod_def
        PyTuple_GET_SIZE_def int_of_long_def demo_env_def demo_world_def demo_bdb_def)
     auto

text \<open>
  C7 as the specification states it fails when \<open>F\<close> is the bottom frame. Frame 1 is both
  \<open>stopframe\<close> and \<open>botframe\<close>; \<open>stop_here\<close> returns 1 and the handler returns the
  tracer, not \<open>None\<close>; after the RETURN event \<open>stopframe\<close> is still frame 1, and the
  caller, frame 2, which had no trace function, has none.
\<close>

theorem tracer_return_botframe_counterexample:
  "fst (stop_here (demo_env Py_False PyBdbTracer)
          (demo_world\<lparr>bdb := demo_bdb\<lparr>stopframe := PyFrame 1, botframe := PyFrame 1\<rparr>\<rparr>) 1) = 1 \<and>
   fst (user_method (demo_env Py_False PyBdbTracer)
          (demo_world\<lparr>bdb := demo_bdb\<lparr>stopframe := PyFrame 1, botframe := PyFrame 1\<rparr>\<rparr>) 1
          ''user_return'' (PyLong 5)) = PyBdbTracer \<and>
   fst (tracer (demo_env Py_False PyBdbTracer)
          (demo_world\<lparr>bdb := demo_bdb\<lparr>stopframe := PyFrame 1, botframe := PyFrame 1\<rparr>\<rparr>) 1
          PyTrace_RETURN (PyLong 5)) = 0 \<and>
   stopframe (bdb (snd (tracer (demo_env Py_False PyBdbTracer)
          (demo_world\<lparr>bdb := demo_bdb\<lparr>stopframe := PyFrame 1, botframe := PyFrame 1\<rparr>\<rparr>) 1
          PyTrace_RETURN (PyLong 5)))) = PyFrame 1 \<and>
   f_back (frames demo_world 1) = Some 2 \<and>
   f_trace (frames demo_world 2) = NULL \<and>
   f_trace (frames (snd (tracer (demo_env Py_False PyBdbTracer)
          (demo_world\<lparr>bdb := demo_bdb\<lparr>stopframe := PyFrame 1, botframe := PyFrame 1\<rparr>\<rparr>) 1
          PyTrace_RETURN (PyLong 5))) 2) = NULL"
  by (simp add: demo_run)

subsection \<open>The invariant of the last-resolved cache\<close>

lemma cache_inv_fields:
  "cache_fields w' = cache_fields w \<Longrightarrow> cache_inv (bdb w') = cache_inv (bdb w)"
  by (simp add: cache_fields_def cache_inv_def)

lemma CallMethod_inv:
  "PyObject_CallMethod env w name args = (r, w') \<Longrightarrow> cache_inv (bdb w) \<Longrightarrow>
   cache_inv (bdb w')"
  by (auto simp: PyObject_CallMethod_def cache_inv_def split: prod.splits if_splits)

lemma stop_here_inv:
  "stop_here env w frame = (rc, w') \<Longrightarrow> cache_inv (bdb w) \<Longrightarrow> cache_inv (bdb w')"
  by (auto simp: stop_here_def split: prod.splits if_splits dest: CallMethod_inv)

lemma user_method_inv:
  assumes "user_method env w frame name arg = (r, w')" and i: "cache_inv (bdb w)"
  shows "cache_inv (bdb w')"
proof -
  define w1 where
    "w1 = (if botframe (bdb w) = Py_None
           then w\<lparr>bdb := (bdb w)\<lparr>botframe := PyFrame frame\<rparr>\<rparr> else w)"
  define w2 where
    "w2 = w1\<lparr>bdb := (bdb w1)\<lparr>topframe := PyFrame frame, topframe_locals := Py_None\<rparr>\<rparr>"
  have i2: "cache_inv (bdb w2)"
    using i by (simp add: w2_def w1_def cache_inv_def)
  obtain r3 w3 where call:
    "(if name = ''user_line'' then PyObject_CallMethod env w2 name [PyFrame frame]
      else PyObject_CallMethod env w2 name [PyFrame frame, arg]) = (r3, w3)"
    by (cases "(if name = ''user_line'' then PyObject_CallMethod env w2 name [PyFrame frame]
                else PyObject_CallMethod env w2 name [PyFrame frame, arg])")
  have i3: "cache_inv (bdb w3)"
    using call i2 by (auto split: if_splits dest: CallMethod_inv)
  have i4: "cache_inv (bdb (w3\<lparr>bdb := (bdb w3)\<lparr>topframe := Py_None,
                                               topframe_locals := Py_None\<rparr>\<rparr>))"
    using i3 by (simp add: cache_inv_def)
  have "user_method env w frame name arg =
          (if r3 = NULL then (NULL, w3)
           else PyObject_CallMethod env
                  (w3\<lparr>bdb := (bdb w3)\<lparr>topframe := Py_None, topframe_locals := Py_None\<rparr>\<rparr>)
                  ''get_traceobj'' [])"
    unfolding user_method_def Let_def w1_def [symmetric] w2_def [symmetric] call by simp
  with assms(1) show ?thesis
    using i3 CallMethod_inv [OF _ i4] by (auto split: if_splits)
qed

lemma bkpt_lookup_inv:
  "bkpt_lookup env w frame filename = (r, w') \<Longrightarrow> cache_inv (bdb w) \<Longrightarrow> cache_inv (bdb w')"
  by (auto simp: bkpt_lookup_def Let_def cache_inv_def split: if_splits)

lemma bkpt_in_code_inv:
  "bkpt_in_code env w frame = (r, w') \<Longrightarrow> cache_inv (bdb w) \<Longrightarrow> cache_inv (bdb w')"
  unfolding bkpt_in_code_def Let_def
  by (auto split: if_splits prod.splits dest: bkpt_lookup_inv)

lemma bkpt_at_line_inv:
  "bkpt_at_line env w frame = (r, w') \<Longrightarrow> cache_inv (bdb w) \<Longrightarrow> cache_inv (bdb w')"
  unfolding bkpt_at_line_def Let_def
  by (auto split: if_splits prod.splits dest: bkpt_in_code_inv)

lemma tracer_line_inv:
  "tracer_line env w frame = (c, w') \<Longrightarrow> cache_inv (bdb w) \<Longrightarrow> cache_inv (bdb w')"
  unfolding tracer_line_def Let_def
  by (auto split: if_splits prod.splits dest: stop_here_inv user_method_inv bkpt_at_line_inv)

lemma cache_inv_ignore:
  "cache_inv (t\<lparr>ignore_first_call_event := x\<rparr>) = cache_inv t"
  by (simp add: cache_inv_def)

lemma tracer_call_inv:
  "tracer_call env w frame arg = (c, w') \<Longrightarrow> cache_inv (bdb w) \<Longrightarrow> cache_inv (bdb w')"
  unfolding tracer_call_def Let_def
  by (auto split: if_splits prod.splits simp: cache_inv_ignore
      dest: stop_here_inv user_method_inv bkpt_in_code_inv)

lemma propagate_cache: "cache_fields (propagate_to_caller env w frame) = cache_fields w"
  by (simp add: propagate_to_caller_def cache_fields_def Let_def split: option.splits)

lemma propagate_inv: "cache_inv (bdb (propagate_to_caller env w frame)) = cache_inv (bdb w)"
  by (rule cache_inv_fields [OF propagate_cache])

lemma tracer_return_stop_inv:
  "tracer_return_stop env w frame arg = (c, w') \<Longrightarrow> cache_inv (bdb w) \<Longrightarrow>
   cache_inv (bdb w')"
  unfolding tracer_return_stop_def Let_def
  by (auto split: if_splits prod.splits option.splits simp: propagate_inv
      dest: user_method_inv)

lemma tracer_return_inv:
  "tracer_return env w frame arg = (c, w') \<Longrightarrow> cache_inv (bdb w) \<Longrightarrow> cache_inv (bdb w')"
  unfolding tracer_return_def Let_def
  by (auto split: if_splits prod.splits ctl.splits
      dest: stop_here_inv tracer_return_stop_inv CallMethod_inv)

lemma tracer_exception_inv:
  "tracer_exception env w frame arg = (c, w') \<Longrightarrow> cache_inv (bdb w) \<Longrightarrow> cache_inv (bdb w')"
  unfolding tracer_exception_def Let_def
  by (auto split: if_splits prod.splits dest: stop_here_inv user_method_inv)

lemma tracer_dispatch_inv:
  "tracer_dispatch env w frame what arg = (c, w') \<Longrightarrow> cache_inv (bdb w) \<Longrightarrow>
   cache_inv (bdb w')"
  unfolding tracer_dispatch_def
  by (auto split: if_splits
      dest: tracer_line_inv tracer_call_inv tracer_return_inv tracer_exception_inv)

lemma tracer_fin_bdb: "tracer_fin w frame result = (rc, w') \<Longrightarrow> bdb w' = bdb w"
  by (auto simp: tracer_fin_def tracer_fail_def split: if_splits)

lemma tracer_fail_bdb: "tracer_fail w frame = (rc, w') \<Longrightarrow> bdb w' = bdb w"
  by (auto simp: tracer_fail_def)

lemma tracer_inv:
  assumes "tracer env w frame what arg = (rc, w')" and "cache_inv (bdb w)"
  shows "cache_inv (bdb w')"
proof (cases "what \<noteq> PyTrace_CALL \<and> f_trace (frames w frame) = NULL")
  case True
  with assms show ?thesis by (simp add: tracer_def)
next
  case False
  obtain c w1 where
    d: "tracer_dispatch env w frame what (if arg = NULL then Py_None else arg) = (c, w1)"
    by (cases "tracer_dispatch env w frame what (if arg = NULL then Py_None else arg)")
  have i1: "cache_inv (bdb w1)"
    using tracer_dispatch_inv [OF d assms(2)] .
  have "bdb w' = bdb w1"
    using assms(1) False d
    by (auto simp: tracer_def split: ctl.splits dest: tracer_fin_bdb tracer_fail_bdb)
  then show ?thesis using i1 by simp
qed

lemma reset_inv:
  "BdbTracer_reset w ignore bf = (r, w') \<Longrightarrow> cache_inv (bdb w) \<Longrightarrow> cache_inv (bdb w')"
  by (auto simp: BdbTracer_reset_def cache_inv_def split: if_splits)

lemma method_stop_here_inv:
  "BdbTracer_stop_here env w arg = (r, w') \<Longrightarrow> cache_inv (bdb w) \<Longrightarrow> cache_inv (bdb w')"
  by (auto simp: BdbTracer_stop_here_def split: PyObject.splits prod.splits if_splits
      dest: stop_here_inv)

lemma cache_inv_None: "cur_f_code t = None \<Longrightarrow> cache_inv t"
  by (simp add: cache_inv_def)

lemma CallMethod_inv_None:
  "PyObject_CallMethod env w name args = (r, w') \<Longrightarrow> cur_f_code (bdb w) = None \<Longrightarrow>
   cache_inv (bdb w')"
  by (rule CallMethod_inv) (auto simp: cache_inv_def)

lemma init_inv:
  "BdbTracer_init env w lc sm sc = (rc, w') \<Longrightarrow> cache_inv (bdb w')"
  unfolding BdbTracer_init_def Let_def
  by (auto split: if_splits prod.splits simp: cache_inv_None elim!: CallMethod_inv_None)

lemma bkpt_lookup_all_or_none:
  "bkpt_lookup env w frame fn = (r, w') \<Longrightarrow>
     cache_fields w' = cache_fields w \<or>
     r \<noteq> NULL \<and> module_bps (bdb w') = r \<and> code_bps (bdb w') \<noteq> NULL \<and>
     cur_f_code (bdb w') = Some (f_code (frames w frame))"
  by (auto simp: bkpt_lookup_def Let_def cache_fields_def split: if_splits)

lemma bkpt_in_code_all_or_none:
  "bkpt_in_code env w frame = (r, w') \<Longrightarrow>
     cache_fields w' = cache_fields w \<or>
     r \<noteq> NULL \<and> module_bps (bdb w') = r \<and> code_bps (bdb w') \<noteq> NULL \<and>
     cur_f_code (bdb w') = Some (f_code (frames w frame))"
  unfolding bkpt_in_code_def Let_def
  by (auto split: if_splits prod.splits simp: cache_fields_def
      dest!: bkpt_lookup_all_or_none)

text \<open>
  C10. The constructor establishes the invariant and every function of the module,
  as well as every call of interpreted code, preserves it: whenever the cached code
  object is set, the cached \<open>module_bps\<close> and \<open>code_bps\<close> are not \<open>NULL\<close>. \<open>bkpt_in_code\<close>
  leaves the three fields as they are or assigns the three together, to objects that are
  not \<open>NULL\<close>. So the cache-hit path of \<open>bkpt_at_line\<close>, taken when the frame's code
  object is the cached one, reads no \<open>NULL\<close>.
\<close>

theorem cache_inv_preserved:
  "cache_inv (bdb (snd (BdbTracer_init env w lc sm sc))) \<and>
   (cache_inv (bdb w) \<longrightarrow>
      cache_inv (bdb (snd (stop_here env w frame))) \<and>
      cache_inv (bdb (snd (bkpt_in_code env w frame))) \<and>
      cache_inv (bdb (snd (bkpt_at_line env w frame))) \<and>
      cache_inv (bdb (snd (user_method env w frame name arg))) \<and>
      cache_inv (bdb (snd (tracer env w frame what arg))) \<and>
      cache_inv (bdb (snd (BdbTracer_reset w ignore bf))) \<and>
      cache_inv (bdb (snd (BdbTracer_stop_here env w obj))) \<and>
      cache_inv (bdb (snd (BdbTracer_set_trace_dispatch w))) \<and>
      cache_inv (bdb (snd (PyObject_CallMethod env w name args)))) \<and>
   (cache_fields (snd (bkpt_in_code env w frame)) = cache_fields w \<or>
      fst (bkpt_in_code env w frame) \<noteq> NULL \<and>
      module_bps (bdb (snd (bkpt_in_code env w frame))) = fst (bkpt_in_code env w frame) \<and>
      code_bps (bdb (snd (bkpt_in_code env w frame))) \<noteq> NULL \<and>
      cur_f_code (bdb (snd (bkpt_in_code env w frame))) = Some (f_code (frames w frame))) \<and>
   (cache_inv (bdb w) \<and> Some (f_code (frames w frame)) = cur_f_code (bdb w) \<longrightarrow>
      module_bps (bdb w) \<noteq> NULL \<and> code_bps (bdb w) \<noteq> NULL)"
proof (intro conjI impI)
  show "cache_inv (bdb (snd (BdbTracer_init env w lc sm sc)))"
    using init_inv [of env w lc sm sc] by (cases "BdbTracer_init env w lc sm sc") simp
next
  assume i: "cache_inv (bdb w)"
  show "cache_inv (bdb (snd (stop_here env w frame)))"
    using stop_here_inv [OF _ i, of env frame] by (cases "stop_here env w frame") simp
  show "cache_inv (bdb (snd (bkpt_in_code env w frame)))"
    using bkpt_in_code_inv [OF _ i, of env frame] by (cases "bkpt_in_code env w frame") simp
  show "cache_inv (bdb (snd (bkpt_at_line env w frame)))"
    using bkpt_at_line_inv [OF _ i, of env frame] by (cases "bkpt_at_line env w frame") simp
  show "cache_inv (bdb (snd (user_method env w frame name arg)))"
    using user_method_inv [OF _ i, of env frame name arg]
    by (cases "user_method env w frame name arg") simp
  show "cache_inv (bdb (snd (tracer env w frame what arg)))"
    using tracer_inv [OF _ i, of env frame what arg]
    by (cases "tracer env w frame what arg") simp
  show "cache_inv (bdb (snd (BdbTracer_reset w ignore bf)))"
    using reset_inv [OF _ i, of ignore bf] by (cases "BdbTracer_reset w ignore bf") simp
  show "cache_inv (bdb (snd (BdbTracer_stop_here env w obj)))"
    using method_stop_here_inv [OF _ i, of env obj]
    by (cases "BdbTracer_stop_here env w obj") simp
  show "cache_inv (bdb (snd (BdbTracer_set_trace_dispatch w)))"
    using i by (simp add: BdbTracer_set_trace_dispatch_def)
  show "cache_inv (bdb (snd (PyObject_CallMethod env w name args)))"
    using CallMethod_inv [OF _ i, of env name args]
    by (cases "PyObject_CallMethod env w name args") simp
next
  show "cache_fields (snd (bkpt_in_code env w frame)) = cache_fields w \<or>
      fst (bkpt_in_code env w frame) \<noteq> NULL \<and>
      module_bps (bdb (snd (bkpt_in_code env w frame))) = fst (bkpt_in_code env w frame) \<and>
      code_bps (bdb (snd (bkpt_in_code env w frame))) \<noteq> NULL \<and>
      cur_f_code (bdb (snd (bkpt_in_code env w frame))) = Some (f_code (frames w frame))"
    using bkpt_in_code_all_or_none [of env w frame]
    by (cases "bkpt_in_code env w frame") simp
next
  assume "cache_inv (bdb w) \<and> Some (f_code (frames w frame)) = cur_f_code (bdb w)"
  then show "module_bps (bdb w) \<noteq> NULL" "code_bps (bdb w) \<noteq> NULL"
    by (auto simp: cache_inv_def)
qed

text \<open>
  The witness: the small session with its cache filled satisfies the invariant, frame 1
  hits the cache and the two cached dictionaries are there; from the session with an
  empty cache, \<open>bkpt_in_code\<close> on frame 1 assigns the three fields.
\<close>

theorem cache_inv_preserved_witness:
  "cache_inv (bdb demo_cached) \<and>
   Some (f_code (frames demo_cached 1)) = cur_f_code (bdb demo_cached) \<and>
   module_bps (bdb demo_cached) \<noteq> NULL \<and> code_bps (bdb demo_cached) \<noteq> NULL \<and>
   cache_inv (bdb (snd (tracer (demo_env Py_False PyBdbTracer) demo_cached 1
                          PyTrace_LINE NULL))) \<and>
   cache_inv (bdb (snd (bkpt_in_code (demo_env Py_False PyBdbTracer) demo_world 1))) \<and>
   cur_f_code (bdb (snd (bkpt_in_code (demo_env Py_False PyBdbTracer) demo_world 1))) =
     Some 7"
proof -
  have inv: "cache_inv (bdb demo_cached)"
    by (simp add: cache_inv_def demo_cached_def)
  have hit: "Some (f_code (frames demo_cached 1)) = cur_f_code (bdb demo_cached)"
    by (simp add: demo_cached_def demo_world_def)
  have inv0: "cache_inv (bdb demo_world)"
    by (simp add: cache_inv_def demo_world_def demo_bdb_def)
  have cur: "cur_f_code (bdb (snd (bkpt_in_code (demo_env Py_False PyBdbTracer) demo_world 1))) =
     Some 7"
    by (simp add: demo_run)
  note a = cache_inv_preserved
          [of "demo_env Py_False PyBdbTracer" demo_cached Py_False None None 1
              "''user_line''" NULL PyTrace_LINE NULL NULL "PyFrame 1" "[]"]
  note b = cache_inv_preserved
          [of "demo_env Py_False PyBdbTracer" demo_world Py_False None None 1
              "''user_line''" NULL PyTrace_LINE NULL NULL "PyFrame 1" "[]"]
  from a inv hit have "module_bps (bdb demo_cached) \<noteq> NULL" "code_bps (bdb demo_cached) \<noteq> NULL"
    "cache_inv (bdb (snd (tracer (demo_env Py_False PyBdbTracer) demo_cached 1
                          PyTrace_LINE NULL)))"
    by blast+
  moreover from b inv0
  have "cache_inv (bdb (snd (bkpt_in_code (demo_env Py_False PyBdbTracer) demo_world 1)))"
    by blast
  ultimately show ?thesis
    using inv hit cur by blast
qed

subsection \<open>The cache hit of bkpt\_at\_line\<close>

lemma GetItem_dict: "PyDict_GetItem h d key \<noteq> NULL \<Longrightarrow> \<exists>a. d = PyDict a"
  by (cases d) (simp_all add: PyDict_GetItem_def)

lemma dict_lookup_append:
  "dict_lookup d key = None \<Longrightarrow> dict_lookup (d @ [(key, v)]) key = Some v"
  by (simp add: dict_lookup_def map_add_def)

lemma dict_lookup_replace:
  "dict_lookup d key \<noteq> None \<Longrightarrow>
   dict_lookup (map (\<lambda>(k, u). if key_of k = key_of key then (k, v) else (k, u)) d) key =
     Some v"
proof (induction d)
  case Nil
  then show ?case by (simp add: dict_lookup_def)
next
  case (Cons p d)
  obtain a b where p: "p = (a, b)" by (cases p)
  show ?case
  proof (cases "key_of a = key_of key")
    case True
    then show ?thesis by (simp add: dict_lookup_def p)
  next
    case False
    with Cons.prems have "dict_lookup d key \<noteq> None"
      by (auto simp: dict_lookup_def p)
    from Cons.IH [OF this] False show ?thesis
      by (auto simp: dict_lookup_def p)
  qed
qed

lemma dict_lookup_store: "dict_lookup (dict_store d key v) key = Some v"
  by (simp add: dict_store_def dict_lookup_append dict_lookup_replace)

lemma GetItem_SetItem:
  "PyDict_SetItem h d key v = (0, h') \<Longrightarrow> PyDict_GetItem h' d key = v"
  by (cases d)
     (auto simp: PyDict_SetItem_def PyDict_GetItem_def dict_lookup_store split: if_splits)

lemma bkpt_lookup_found:
  "lookup_finds env w frame fn \<Longrightarrow>
   bkpt_lookup env w frame fn =
     (PyDict_GetItem (dicts w) (breakpoints (bdb w)) fn, cache_filled env w frame fn)"
  by (simp add: lookup_finds_def cache_filled_def bkpt_lookup_def Let_def)

lemma bkpt_lookup_not_found:
  "\<not> lookup_finds env w frame fn \<Longrightarrow> bkpt_lookup env w frame fn = (Py_None, w)"
  unfolding lookup_finds_def bkpt_lookup_def Let_def
  by (simp only: de_Morgan_conj split: if_split) blast

text \<open>The module's dictionary that a successful lookup returns is a dictionary.\<close>

lemma lookup_finds_module:
  assumes "lookup_finds env w frame fn"
  shows "PyDict_GetItem (dicts w) (breakpoints (bdb w)) fn \<noteq> NULL \<and>
         PyDict_GetItem (dicts w) (breakpoints (bdb w)) fn \<noteq> Py_None"
proof -
  from assms obtain k where
    "PyDict_GetItem (dicts w) (PyDict_GetItem (dicts w) (breakpoints (bdb w)) fn) k \<noteq> NULL"
    and "PyDict_GetItem (dicts w) (breakpoints (bdb w)) fn \<noteq> NULL"
    unfolding lookup_finds_def Let_def by blast
  then show ?thesis using GetItem_dict by fastforce
qed

lemma cache_filled_frame:
  "frames (cache_filled env w frame fn) = frames w"
  "dicts (cache_filled env w frame fn) = dicts w"
  "lcfilename_cache (bdb (cache_filled env w frame fn)) = lcfilename_cache (bdb w)"
  "breakpoints (bdb (cache_filled env w frame fn)) = breakpoints (bdb w)"
  "linenumbers (bdb (cache_filled env w frame fn)) = linenumbers (bdb w)"
  "cur_f_code (bdb (cache_filled env w frame fn)) = Some (f_code (frames w frame))"
  "module_bps (bdb (cache_filled env w frame fn)) =
     PyDict_GetItem (dicts w) (breakpoints (bdb w)) fn"
  by (simp_all add: cache_filled_def Let_def)

lemma lookup_finds_cong:
  assumes "frames w' = frames w" "dicts w' = dicts w"
    "breakpoints (bdb w') = breakpoints (bdb w)" "linenumbers (bdb w') = linenumbers (bdb w)"
    "f_code (frames w frame2) = f_code (frames w frame)"
  shows "lookup_finds env w' frame2 fn = lookup_finds env w frame fn"
  using assms by (simp add: lookup_finds_def)

lemma cache_filled_idem:
  assumes "f_code (frames w frame2) = f_code (frames w frame)"
  shows "cache_filled env (cache_filled env w frame fn) frame2 fn = cache_filled env w frame fn"
  using assms by (simp add: cache_filled_def Let_def)

lemma cache_filled_uncached:
  "cache_filled env (uncached w) frame fn = cache_filled env w frame fn"
  by (simp add: cache_filled_def uncached_def Let_def)

lemma bkpt_in_code_known:
  "known_key env w frame = Some k \<Longrightarrow> bkpt_in_code env w frame = bkpt_lookup env w frame k"
  by (auto simp: known_key_def bkpt_in_code_def Let_def split: if_splits)

text \<open>
  A run of \<open>bkpt_in_code\<close> that does not fail is a run of the lookup, on the state in
  which the folded file name is in \<open>lcfilename_cache\<close>.
\<close>

lemma bkpt_in_code_success:
  assumes "bkpt_in_code env w frame = (r, w')" and "r \<noteq> NULL"
  shows "\<exists>k h. known_key env (w\<lparr>dicts := h\<rparr>) frame = Some k \<and>
               bkpt_lookup env (w\<lparr>dicts := h\<rparr>) frame k = (r, w')"
proof (cases "known_key env w frame")
  case (Some k)
  then have "bkpt_lookup env (w\<lparr>dicts := dicts w\<rparr>) frame k = (r, w')"
    using assms(1) by (simp add: bkpt_in_code_known)
  moreover have "known_key env (w\<lparr>dicts := dicts w\<rparr>) frame = Some k"
    using Some by simp
  ultimately show ?thesis by blast
next
  case None
  define fn where "fn = co_filename (codes env (f_code (frames w frame)))"
  have c: "lcfilename_cache (bdb w) \<noteq> NULL"
    and g: "PyDict_GetItem (dicts w) (lcfilename_cache (bdb w)) fn = NULL"
    using None by (auto simp: known_key_def Let_def fn_def split: if_splits)
  obtain rc h where
    set: "PyDict_SetItem (dicts w) (lcfilename_cache (bdb w)) fn (str_lower env fn) = (rc, h)"
    by (cases "PyDict_SetItem (dicts w) (lcfilename_cache (bdb w)) fn (str_lower env fn)")
  have run: "bkpt_in_code env w frame =
      (if str_lower env fn = NULL then (NULL, w)
       else if rc \<noteq> 0 then (NULL, w)
       else bkpt_lookup env (w\<lparr>dicts := h\<rparr>) frame (str_lower env fn))"
    using c g set by (simp add: bkpt_in_code_def Let_def fn_def)
  from run assms have l: "str_lower env fn \<noteq> NULL" and rc: "rc = 0"
    and look: "bkpt_lookup env (w\<lparr>dicts := h\<rparr>) frame (str_lower env fn) = (r, w')"
    by (auto split: if_splits)
  have "PyDict_GetItem h (lcfilename_cache (bdb w)) fn = str_lower env fn"
    using set rc GetItem_SetItem by blast
  then have "known_key env (w\<lparr>dicts := h\<rparr>) frame = Some (str_lower env fn)"
    using c l by (simp add: known_key_def Let_def fn_def)
  with look show ?thesis by blast
qed

lemma known_key_cong:
  assumes "frames w' = frames w" "dicts w' = dicts w"
    "lcfilename_cache (bdb w') = lcfilename_cache (bdb w)"
    "f_code (frames w frame2) = f_code (frames w frame)"
  shows "known_key env w' frame2 = known_key env w frame"
  using assms by (simp add: known_key_def Let_def)

lemma bkpt_lookup_frame:
  assumes "bkpt_lookup env w frame k = (r, w')"
  shows "frames w' = frames w" "dicts w' = dicts w"
    "lcfilename_cache (bdb w') = lcfilename_cache (bdb w)"
    "breakpoints (bdb w') = breakpoints (bdb w)"
    "linenumbers (bdb w') = linenumbers (bdb w)"
  using assms
  by (cases "lookup_finds env w frame k";
      auto simp: bkpt_lookup_found bkpt_lookup_not_found cache_filled_frame)+

text \<open>
  After a lookup that found breakpoints, the same lookup changes nothing, from the
  state it left and from that state with the cache emptied.
\<close>

lemma bkpt_lookup_again:
  assumes look: "bkpt_lookup env w frame k = (r, w')" and found: "r \<noteq> Py_None"
    and same: "f_code (frames w frame2) = f_code (frames w frame)"
  shows "bkpt_lookup env w' frame2 k = (r, w')"
    and "bkpt_lookup env (uncached w') frame2 k = (r, w')"
    and "module_bps (bdb w') = r" and "r \<noteq> NULL"
    and "cur_f_code (bdb w') = Some (f_code (frames w frame))"
proof -
  have f: "lookup_finds env w frame k"
    using look found
    by (cases "lookup_finds env w frame k") (simp_all add: bkpt_lookup_not_found)
  have r: "r = PyDict_GetItem (dicts w) (breakpoints (bdb w)) k"
    and w': "w' = cache_filled env w frame k"
    using look by (simp_all add: bkpt_lookup_found [OF f])
  have "lookup_finds env w' frame2 k = lookup_finds env w frame k"
    by (rule lookup_finds_cong) (simp_all add: w' cache_filled_frame same)
  with f have f': "lookup_finds env w' frame2 k" by simp
  have "lookup_finds env (uncached w') frame2 k = lookup_finds env w frame k"
    by (rule lookup_finds_cong) (simp_all add: w' cache_filled_frame same uncached_def)
  with f have fu: "lookup_finds env (uncached w') frame2 k" by simp
  show "bkpt_lookup env w' frame2 k = (r, w')"
    using same
    by (simp add: bkpt_lookup_found [OF f'])
       (simp add: w' r cache_filled_frame cache_filled_idem)
  show "bkpt_lookup env (uncached w') frame2 k = (r, w')"
    using same
    by (simp add: bkpt_lookup_found [OF fu] cache_filled_uncached)
       (simp add: w' r cache_filled_frame cache_filled_idem uncached_def)
  show "module_bps (bdb w') = r" by (simp add: w' r cache_filled_frame)
  show "r \<noteq> NULL" using lookup_finds_module [OF f] by (simp add: r)
  show "cur_f_code (bdb w') = Some (f_code (frames w frame))"
    by (simp add: w' cache_filled_frame)
qed

lemma bkpt_in_code_same_code:
  assumes "f_code (frames w frame2) = f_code (frames w frame)"
  shows "bkpt_in_code env w frame2 = bkpt_in_code env w frame"
proof -
  have "bkpt_lookup env v frame2 k = bkpt_lookup env v frame k" if "frames v = frames w" for v k
    using assms that by (simp add: bkpt_lookup_def Let_def)
  then show ?thesis
    using assms by (simp add: bkpt_in_code_def Let_def split: prod.splits)
qed

lemma bkpt_in_code_NULL:
  assumes "bkpt_in_code env w frame = (NULL, w')"
  shows "w' = w"
proof -
  have "bkpt_lookup env v frame k \<noteq> (NULL, w')" for v k
    by (cases "lookup_finds env v frame k")
       (use lookup_finds_module [of env v frame k] in
         \<open>auto simp: bkpt_lookup_found bkpt_lookup_not_found\<close>)
  with assms show ?thesis
    unfolding bkpt_in_code_def Let_def
    by (auto split: if_splits prod.splits)
qed

lemma bkpt_in_code_None:
  assumes "bkpt_in_code env w frame = (Py_None, w')"
  shows "cur_f_code (bdb w') = cur_f_code (bdb w)" and "frames w' = frames w"
proof -
  from bkpt_in_code_success [OF assms] obtain k h where
    look: "bkpt_lookup env (w\<lparr>dicts := h\<rparr>) frame k = (Py_None, w')" by auto
  have "\<not> lookup_finds env (w\<lparr>dicts := h\<rparr>) frame k"
    using look lookup_finds_module [of env "w\<lparr>dicts := h\<rparr>" frame k]
    by (auto simp: bkpt_lookup_found)
  then have "w' = w\<lparr>dicts := h\<rparr>"
    using look by (simp add: bkpt_lookup_not_found)
  then show "cur_f_code (bdb w') = cur_f_code (bdb w)" and "frames w' = frames w"
    by simp_all
qed

lemma bkpt_in_code_again:
  assumes run: "bkpt_in_code env w frame = (r, w')" and "r \<noteq> NULL" and "r \<noteq> Py_None"
  shows "bkpt_in_code env w' frame = (r, w')"
    and "bkpt_in_code env (uncached w') frame = (r, w')"
    and "module_bps (bdb w') = r"
    and "cur_f_code (bdb w') = Some (f_code (frames w frame))"
    and "frames w' = frames w"
proof -
  from bkpt_in_code_success [OF assms(1,2)] obtain k h where
    key: "known_key env (w\<lparr>dicts := h\<rparr>) frame = Some k" and
    look: "bkpt_lookup env (w\<lparr>dicts := h\<rparr>) frame k = (r, w')" by auto
  note fr = bkpt_lookup_frame [OF look]
  note again = bkpt_lookup_again [OF look assms(3), of frame]
  have "known_key env w' frame = known_key env (w\<lparr>dicts := h\<rparr>) frame"
    by (rule known_key_cong) (simp_all add: fr)
  then show "bkpt_in_code env w' frame = (r, w')"
    using key again(1) by (simp add: bkpt_in_code_known)
  have "known_key env (uncached w') frame = known_key env (w\<lparr>dicts := h\<rparr>) frame"
    by (rule known_key_cong) (simp_all add: fr uncached_def)
  then show "bkpt_in_code env (uncached w') frame = (r, w')"
    using key again(2) by (simp add: bkpt_in_code_known)
  show "module_bps (bdb w') = r" using again(3) by simp
  show "cur_f_code (bdb w') = Some (f_code (frames w frame))" using again(5) by simp
  show "frames w' = frames w" using fr(1) by simp
qed

lemma bkpt_in_code_frames:
  "bkpt_in_code env w frame = (r, w') \<Longrightarrow> frames w' = frames w"
  using bkpt_in_code_NULL [of env w frame w'] bkpt_in_code_None(2) [of env w frame w']
    bkpt_in_code_again(5) [of env w frame r w']
  by (cases "r = NULL"; cases "r = Py_None") auto

text \<open>What a coherent cache holds.\<close>

lemma cache_coherent_module:
  assumes "cache_coherent env w frame"
  shows "bkpt_in_code env (uncached w) frame = (module_bps (bdb w), w)"
    and "module_bps (bdb w) \<noteq> NULL" and "module_bps (bdb w) \<noteq> Py_None"
proof -
  obtain r where run: "bkpt_in_code env (uncached w) frame = (r, w)"
    using assms by (cases "bkpt_in_code env (uncached w) frame") (simp add: cache_coherent_def)
  have cur: "cur_f_code (bdb w) \<noteq> cur_f_code (bdb (uncached w))"
    using assms by (simp add: cache_coherent_def uncached_def)
  have r1: "r \<noteq> NULL"
    using run bkpt_in_code_NULL [of env "uncached w" frame w] cur by auto
  have r2: "r \<noteq> Py_None"
    using run bkpt_in_code_None(1) [of env "uncached w" frame w] cur by auto
  have "module_bps (bdb w) = r"
    by (rule bkpt_in_code_again(3) [OF run r1 r2])
  then show "bkpt_in_code env (uncached w) frame = (module_bps (bdb w), w)"
    and "module_bps (bdb w) \<noteq> NULL" and "module_bps (bdb w) \<noteq> Py_None"
    using run r1 r2 by simp_all
qed

lemma bkpt_at_line_hit:
  "cur_f_code (bdb w) = Some (f_code (frames w frame)) \<Longrightarrow>
   bkpt_at_line env w frame = (bkpt_line_check w frame (module_bps (bdb w)), w)"
  by (simp add: bkpt_at_line_def)

lemma bkpt_at_line_hit_index:
  "cur_f_code (bdb w) = Some (f_code (frames w frame)) \<Longrightarrow>
   bkpt_at_line env' (w\<lparr>bdb := (bdb w)\<lparr>breakpoints := b\<rparr>\<rparr>) frame =
     (bkpt_line_check w frame (module_bps (bdb w)), w\<lparr>bdb := (bdb w)\<lparr>breakpoints := b\<rparr>\<rparr>)"
  by (simp add: bkpt_at_line_def bkpt_line_check_def Let_def)

lemma bkpt_at_line_coherent:
  assumes "cache_coherent env w frame"
  shows "bkpt_at_line env (uncached w) frame = bkpt_at_line env w frame"
proof -
  note c = cache_coherent_module [OF assms]
  have "cur_f_code (bdb w) = Some (f_code (frames w frame))"
    using assms by (simp add: cache_coherent_def)
  then have "bkpt_at_line env w frame = (bkpt_line_check w frame (module_bps (bdb w)), w)"
    by (rule bkpt_at_line_hit)
  moreover have "bkpt_at_line env (uncached w) frame =
      (bkpt_line_check w frame (module_bps (bdb w)), w)"
    using c by (simp add: bkpt_at_line_def) (simp add: uncached_def)
  ultimately show ?thesis by simp
qed

lemma cache_coherent_same_code:
  assumes "cache_coherent env w frame" and "f_code (frames w frame2) = f_code (frames w frame)"
  shows "cache_coherent env w frame2"
proof -
  have "f_code (frames (uncached w) frame2) = f_code (frames (uncached w) frame)"
    using assms(2) by (simp add: uncached_def)
  then have "bkpt_in_code env (uncached w) frame2 = bkpt_in_code env (uncached w) frame"
    by (rule bkpt_in_code_same_code)
  with assms show ?thesis by (simp add: cache_coherent_def)
qed

text \<open>A resolution through the index leaves a coherent cache.\<close>

lemma bkpt_at_line_miss_coherent:
  assumes first: "bkpt_at_line env w frame = (r, w1)"
    and miss: "cur_f_code (bdb w) \<noteq> Some (f_code (frames w frame))"
    and hit: "cur_f_code (bdb w1) = Some (f_code (frames w frame))"
  shows "cache_coherent env w1 frame"
proof -
  obtain m w' where run: "bkpt_in_code env w frame = (m, w')"
    by (cases "bkpt_in_code env w frame")
  have w1: "w1 = w'"
    using first miss run by (auto simp: bkpt_at_line_def split: if_splits)
  have m1: "m \<noteq> NULL"
    using bkpt_in_code_NULL [of env w frame w'] run miss hit w1 by auto
  have m2: "m \<noteq> Py_None"
    using bkpt_in_code_None(1) [of env w frame w'] run miss hit w1 by auto
  note a = bkpt_in_code_again [OF run m1 m2]
  show ?thesis
    using a(2) a(4) a(5) by (simp add: cache_coherent_def w1)
qed

lemma bkpt_at_line_keeps_coherent:
  assumes "cache_coherent env w frame" and "bkpt_at_line env w frame = (r, w1)"
  shows "w1 = w"
  using assms by (simp add: cache_coherent_def bkpt_at_line_def)

lemma bkpt_at_line_frames:
  "bkpt_at_line env w frame = (r, w1) \<Longrightarrow> frames w1 = frames w"
  by (auto simp: bkpt_at_line_def split: if_splits prod.splits dest: bkpt_in_code_frames)

text \<open>
  C2. Take two consecutive calls of \<open>bkpt_at_line\<close>, on frames of the same code object,
  the second finding that code object in the cache. The first call either resolved
  through the index (the cache held another code object, or none), or was itself a hit
  on a coherent cache. Then the second call changes no state and returns what the line
  check on the cached dictionaries gives; it returns the same for every environment and
  every value of the attribute \<open>breakpoints\<close>, so it reads neither the index nor
  \<open>lcfilename_cache\<close>; and its result is the result of the uncached path.
\<close>

theorem bkpt_at_line_cached:
  assumes same: "f_code (frames w frame2) = f_code (frames w frame1)"
    and first: "bkpt_at_line env w frame1 = (r1, w1)"
    and hit: "cur_f_code (bdb w1) = Some (f_code (frames w1 frame2))"
    and before: "cur_f_code (bdb w) \<noteq> Some (f_code (frames w frame1)) \<or>
                 cache_coherent env w frame1"
  shows "bkpt_at_line env w1 frame2 =
           (bkpt_line_check w1 frame2 (module_bps (bdb w1)), w1) \<and>
         (\<forall>env' b. bkpt_at_line env' (w1\<lparr>bdb := (bdb w1)\<lparr>breakpoints := b\<rparr>\<rparr>) frame2 =
                    (fst (bkpt_at_line env w1 frame2),
                     w1\<lparr>bdb := (bdb w1)\<lparr>breakpoints := b\<rparr>\<rparr>)) \<and>
         fst (bkpt_at_line env w1 frame2) = fst (bkpt_at_line env (uncached w1) frame2)"
proof -
  have fr: "frames w1 = frames w"
    using first by (rule bkpt_at_line_frames)
  have hit1: "cur_f_code (bdb w1) = Some (f_code (frames w frame1))"
    using hit same by (simp add: fr)
  have "cache_coherent env w1 frame1"
  proof (cases "cur_f_code (bdb w) = Some (f_code (frames w frame1))")
    case True
    with before have c: "cache_coherent env w frame1" by simp
    from c first have "w1 = w" by (rule bkpt_at_line_keeps_coherent)
    with c show ?thesis by simp
  next
    case False
    with first hit1 show ?thesis
      using bkpt_at_line_miss_coherent [of env w frame1 r1 w1] by (simp add: fr)
  qed
  then have c2: "cache_coherent env w1 frame2"
    by (rule cache_coherent_same_code) (simp add: fr same)
  have a: "bkpt_at_line env w1 frame2 =
             (bkpt_line_check w1 frame2 (module_bps (bdb w1)), w1)"
    using hit by (rule bkpt_at_line_hit)
  moreover have "bkpt_at_line env' (w1\<lparr>bdb := (bdb w1)\<lparr>breakpoints := b\<rparr>\<rparr>) frame2 =
                   (fst (bkpt_at_line env w1 frame2), w1\<lparr>bdb := (bdb w1)\<lparr>breakpoints := b\<rparr>\<rparr>)"
    for env' b
    using hit by (simp add: bkpt_at_line_hit_index a)
  moreover have "fst (bkpt_at_line env w1 frame2) =
                 fst (bkpt_at_line env (uncached w1) frame2)"
    using bkpt_at_line_coherent [OF c2] by simp
  ultimately show ?thesis by blast
qed

text \<open>
  The witness. From the small session with an empty cache, the first call, on frame 1,
  resolves through the index and returns the module's dictionary; the second call, on
  frame 3 (same function, line 11, no breakpoint), hits the cache and returns \<open>None\<close>,
  as the uncached path does. Then a third call, on frame 1 again, follows a call that was
  a hit, and returns the module's dictionary, as the uncached path does.
\<close>

theorem bkpt_at_line_cached_witness:
  "bkpt_at_line (demo_env Py_False PyBdbTracer) demo_world 1 = (PyDict 101, demo_cached) \<and>
   bkpt_at_line (demo_env Py_False PyBdbTracer) demo_cached 3 = (Py_None, demo_cached) \<and>
   fst (bkpt_at_line (demo_env Py_False PyBdbTracer) (uncached demo_cached) 3) = Py_None \<and>
   bkpt_at_line (demo_env Py_False PyBdbTracer) demo_cached 1 = (PyDict 101, demo_cached) \<and>
   fst (bkpt_at_line (demo_env Py_False PyBdbTracer) (uncached demo_cached) 1) = PyDict 101"
proof -
  let ?env = "demo_env Py_False PyBdbTracer"
  have first: "bkpt_at_line ?env demo_world 1 = (PyDict 101, demo_cached)"
    by (simp add: demo_run)
  have same: "f_code (frames demo_world 3) = f_code (frames demo_world 1)"
    by (simp add: demo_world_def)
  have hit: "cur_f_code (bdb demo_cached) = Some (f_code (frames demo_cached 3))"
    by (simp add: demo_cached_def demo_world_def)
  have miss: "cur_f_code (bdb demo_world) \<noteq> Some (f_code (frames demo_world 1))"
    by (simp add: demo_world_def demo_bdb_def)
  have check3: "bkpt_line_check demo_cached 3 (module_bps (bdb demo_cached)) = Py_None"
    by (simp add: demo_run)
  have check1: "bkpt_line_check demo_cached 1 (module_bps (bdb demo_cached)) = PyDict 101"
    by (simp add: demo_run)
  note a = bkpt_at_line_cached [of demo_world 3 1 ?env "PyDict 101" demo_cached,
      OF same first hit disjI1 [OF miss]]
  have second: "bkpt_at_line ?env demo_cached 3 = (Py_None, demo_cached)"
    using a check3 by metis
  have u3: "fst (bkpt_at_line ?env (uncached demo_cached) 3) = Py_None"
    using a second by (metis fst_conv)
  have coh: "cache_coherent ?env demo_cached 3"
    by (simp add: cache_coherent_def uncached_def demo_run)
  have same': "f_code (frames demo_cached 1) = f_code (frames demo_cached 3)"
    by (simp add: demo_cached_def demo_world_def)
  have hit': "cur_f_code (bdb demo_cached) = Some (f_code (frames demo_cached 1))"
    by (simp add: demo_cached_def demo_world_def)
  note b = bkpt_at_line_cached [of demo_cached 1 3 ?env Py_None demo_cached,
      OF same' second hit' disjI2 [OF coh]]
  have third: "bkpt_at_line ?env demo_cached 1 = (PyDict 101, demo_cached)"
    using b check1 by metis
  have u1: "fst (bkpt_at_line ?env (uncached demo_cached) 1) = PyDict 101"
    using b third by (metis fst_conv)
  show ?thesis
    using first second u3 third u1 by simp
qed

end
